theory Spec2Isabelle
  imports Complex_Main
begin

section \<open>Leave management: data model\<close>

text \<open>
  The embedding follows \<^verbatim>\<open>src/app/models\<close>, \<^verbatim>\<open>src/app/schemas/leave.py\<close>,
  \<^verbatim>\<open>src/app/services/leave_service.py\<close>, \<^verbatim>\<open>src/app/dependencies.py\<close> and the
  leave routes of \<^verbatim>\<open>src/app/api/v1/leaves.py\<close>.

  Conventions.
  \<^item> A table is the list of its rows; \<^verbatim>\<open>query.filter(p).first()\<close> is \<^term>\<open>find p\<close>, and
    assigning to attributes of the object it returned rewrites the first row matching \<open>p\<close>.
  \<^item> A \<^verbatim>\<open>Decimal\<close> is a rational number: Python's decimal addition and subtraction are
    exact on the values of these columns. The precision of the \<^verbatim>\<open>Numeric(5, 2)\<close> columns
    is enforced by the database engine, which is not part of the sources, and is not
    modelled.
  \<^item> A route either raises before its \<^verbatim>\<open>db.commit()\<close> (the session is discarded, nothing
    is written: \<open>Raised\<close> with the error), or commits and returns its response, which
    FastAPI validates against \<^verbatim>\<open>response_model=LeaveApplicationResponse\<close>: \<open>Committed\<close>
    with the database as committed and either the application sent back or the error of
    the failed response (HTTP 500, after the commit).
  \<^item> \<^verbatim>\<open>get_current_user\<close> assigns the role of the token to the employee row it fetched, in
    the session of the route, so the commit of a route stores that role.
  \<^item> The audit columns \<^verbatim>\<open>created_at\<close>/\<^verbatim>\<open>updated_at\<close>, which the database maintains by
    itself, and the text of a notification's message are left out; a notification keeps
    its recipient, its title, its type and the application its link points to.
  \<^item> Clock readings (\<^verbatim>\<open>datetime.now()\<close>, \<^verbatim>\<open>func.now()\<close>) are a parameter \<open>now\<close>.
  \<^item> The primary key that the database gives a new application is read from the counter
    \<open>next_application_id\<close> of the database.
\<close>

datatype user_role = ADMIN | MANAGER | EMPLOYEE

datatype leave_status = PENDING | APPROVED | REJECTED | CANCELLED

datatype notification_type = LEAVE | ATTENDANCE | RAVE | SYSTEM

text \<open>
  The failures a route reports: \<^verbatim>\<open>HTTPException\<close> with status 404 (\<open>NotFound\<close>), 403
  (\<open>Forbidden\<close>), 400 with detail "Cannot modify/cancel application with status ..." or
  "Can only update pending applications" (\<open>InvalidStateTransition\<close>), 400 with detail
  "Insufficient leave balance. Available: ..." (\<open>InsufficientBalance\<close>, carrying the
  available days), a pydantic validation failure of the request body (\<open>ValidationError\<close>),
  status 401 (\<open>Unauthenticated\<close>), and any other uncaught exception, a failed validation
  of the response included (\<open>InternalError\<close>, HTTP 500).
\<close>

datatype error =
    NotFound
  | Forbidden
  | InvalidStateTransition
  | InsufficientBalance rat
  | ValidationError
  | Unauthenticated
  | InternalError

subsection \<open>Python's \<^verbatim>\<open>datetime.date\<close>\<close>

datatype date = Date (date_year: int) (date_month: int) (date_day: int)

definition is_leap :: "int \<Rightarrow> bool" where
  "is_leap y = (y mod 4 = 0 \<and> (y mod 100 \<noteq> 0 \<or> y mod 400 = 0))"

definition days_before_year :: "int \<Rightarrow> int" where
  "days_before_year y = (let p = y - 1 in p * 365 + p div 4 - p div 100 + p div 400)"

definition days_in_month :: "int list" where
  "days_in_month = [31, 28, 31, 30, 31, 30, 31, 31, 30, 31, 30, 31]"

definition days_before_month :: "int \<Rightarrow> int \<Rightarrow> int" where
  "days_before_month y m =
     sum_list (take (nat (m - 1)) days_in_month) + (if m > 2 \<and> is_leap y then 1 else 0)"

definition toordinal :: "date \<Rightarrow> int" where
  "toordinal d =
     days_before_year (date_year d) + days_before_month (date_year d) (date_month d) + date_day d"

text \<open>\<^verbatim>\<open>a < b\<close> on dates compares \<^verbatim>\<open>(year, month, day)\<close> lexicographically.\<close>

definition date_less :: "date \<Rightarrow> date \<Rightarrow> bool" where
  "date_less a b =
     (date_year a < date_year b \<or>
      (date_year a = date_year b \<and>
       (date_month a < date_month b \<or>
        (date_month a = date_month b \<and> date_day a < date_day b))))"

subsection \<open>Tables\<close>

record employee =
  employee_id :: int
  first_name :: string
  last_name :: string
  manager_id :: "int option"
  role :: user_role

record leave_type =
  leave_type_id :: int
  type_name :: string

text \<open>
  \<^verbatim>\<open>remaining_days\<close> is a nullable column with no default (the response schema declares it
  \<^verbatim>\<open>Optional[Decimal]\<close>); \<^verbatim>\<open>used_days\<close> defaults to 0 and \<^verbatim>\<open>total_allocated\<close> is not
  nullable.
\<close>

record leave_balance =
  balance_id :: int
  lb_employee_id :: int
  lb_leave_type_id :: int
  year :: int
  total_allocated :: rat
  used_days :: rat
  remaining_days :: "rat option"

record leave_application =
  leave_application_id :: int
  la_employee_id :: int
  la_leave_type_id :: int
  start_date :: date
  end_date :: date
  total_days :: rat
  reason :: string
  status :: leave_status
  approved_by :: "int option"
  applied_on :: int
  approved_rejected_on :: "int option"
  rejection_reason :: "string option"
  attachments :: "string option"

record notification =
  n_employee_id :: int
  title :: string
  n_type :: notification_type
  link_application_id :: int

record db =
  employees :: "employee list"
  leave_types :: "leave_type list"
  leave_balances :: "leave_balance list"
  leave_applications :: "leave_application list"
  notifications :: "notification list"
  next_application_id :: int

text \<open>Assignment to the attributes of the first row that satisfies \<open>p\<close>.\<close>

fun update_first :: "('a \<Rightarrow> bool) \<Rightarrow> ('a \<Rightarrow> 'a) \<Rightarrow> 'a list \<Rightarrow> 'a list" where
  "update_first p f [] = []"
| "update_first p f (x # xs) = (if p x then f x # xs else x # update_first p f xs)"

text \<open>The backref \<^verbatim>\<open>Employee.subordinates\<close>: the employees whose manager is \<open>u\<close>.\<close>

definition subordinates :: "employee list \<Rightarrow> employee \<Rightarrow> employee list" where
  "subordinates emps u = filter (\<lambda>e. manager_id e = Some (employee_id u)) emps"

subsection \<open>Request schemas (\<^verbatim>\<open>src/app/schemas/leave.py\<close>)\<close>

record leave_application_create =
  lac_leave_type_id :: int
  lac_start_date :: date
  lac_end_date :: date
  lac_reason :: string
  lac_attachments :: "string option"

text \<open>The field validator of \<^verbatim>\<open>end_date\<close>; \<^verbatim>\<open>start_date\<close> is validated before it.\<close>

definition validate_dates :: "date \<Rightarrow> date \<Rightarrow> error + date" where
  "validate_dates v start = (if date_less v start then Inl ValidationError else Inr v)"

definition validate_create :: "leave_application_create \<Rightarrow> error + leave_application_create" where
  "validate_create la =
     (case validate_dates (lac_end_date la) (lac_start_date la) of
        Inl e \<Rightarrow> Inl e
      | Inr _ \<Rightarrow> if length (lac_reason la) < 1 then Inl ValidationError else Inr la)"

text \<open>
  A field of \<^verbatim>\<open>LeaveApplicationUpdate\<close>: left out of the request, sent as \<^verbatim>\<open>null\<close>, or
  sent with a value (\<^verbatim>\<open>model_dump(exclude_unset=True)\<close> keeps the last two).
\<close>

datatype 'a field = Unset | Null | Value 'a

record leave_application_update =
  lau_start_date :: "date field"
  lau_end_date :: "date field"
  lau_reason :: "string field"
  lau_attachments :: "string field"

definition validate_update :: "leave_application_update \<Rightarrow> error + leave_application_update" where
  "validate_update u =
     (case lau_reason u of
        Value r \<Rightarrow> if length r < 1 then Inl ValidationError else Inr u
      | _ \<Rightarrow> Inr u)"

record leave_approval_request =
  lar_status :: leave_status
  lar_rejection_reason :: "string option"

definition validate_status :: "leave_status \<Rightarrow> error + leave_status" where
  "validate_status v = (if v \<notin> set [APPROVED, REJECTED] then Inl ValidationError else Inr v)"

subsection \<open>Dependencies (\<^verbatim>\<open>src/app/dependencies.py\<close>)\<close>

text \<open>
  The payload of a decoded access token: the user id (\<^verbatim>\<open>sub\<close>) and the role. The
  employee that \<^verbatim>\<open>get_current_user\<close> returns is the row of that id with the role of
  the token assigned to it; the routes below take this employee as \<open>current_user\<close>.
\<close>

record token =
  token_sub :: int
  token_role :: user_role

definition get_current_user :: "employee list \<Rightarrow> token \<Rightarrow> error + employee" where
  "get_current_user emps tok =
     (case find (\<lambda>e. employee_id e = token_sub tok) emps of
        None \<Rightarrow> Inl Unauthenticated
      | Some user \<Rightarrow> Inr (user\<lparr>role := token_role tok\<rparr>))"

text \<open>
  What a commit of the route's session stores of that assignment: the role of
  \<open>current_user\<close> in the row of its id.
\<close>

definition commit_role :: "employee \<Rightarrow> db \<Rightarrow> db" where
  "commit_role current_user d =
     d\<lparr>employees :=
         update_first (\<lambda>e. employee_id e = employee_id current_user)
           (\<lambda>e. e\<lparr>role := role current_user\<rparr>) (employees d)\<rparr>"

definition get_current_manager_or_admin :: "employee \<Rightarrow> error + employee" where
  "get_current_manager_or_admin current_user =
     (if role current_user \<notin> set [ADMIN, MANAGER] then Inl Forbidden else Inr current_user)"

section \<open>The service layer (\<^verbatim>\<open>src/app/services/leave_service.py\<close>)\<close>

definition calculate_leave_days :: "date \<Rightarrow> date \<Rightarrow> rat" where
  "calculate_leave_days start_d end_d = of_int ((toordinal end_d - toordinal start_d) + 1)"

definition balance_filter :: "int \<Rightarrow> int \<Rightarrow> int \<Rightarrow> leave_balance \<Rightarrow> bool" where
  "balance_filter e t y b = (lb_employee_id b = e \<and> lb_leave_type_id b = t \<and> year b = y)"

definition get_leave_balance ::
  "leave_balance list \<Rightarrow> int \<Rightarrow> int \<Rightarrow> int \<Rightarrow> leave_balance option" where
  "get_leave_balance bs e t y = find (balance_filter e t y) bs"

text \<open>
  The result is the flag and the available days (the message is left out); comparing a
  null \<^verbatim>\<open>remaining_days\<close> with a \<^verbatim>\<open>Decimal\<close> raises \<^verbatim>\<open>TypeError\<close>.
\<close>

definition has_sufficient_balance ::
  "leave_balance list \<Rightarrow> int \<Rightarrow> int \<Rightarrow> date \<Rightarrow> date \<Rightarrow> error + (bool \<times> rat option)" where
  "has_sufficient_balance bs e t start_d end_d =
     (let y = date_year start_d;
          days = calculate_leave_days start_d end_d
      in case get_leave_balance bs e t y of
           None \<Rightarrow> Inr (False, None)
         | Some balance \<Rightarrow>
             (case remaining_days balance of
                None \<Rightarrow> Inl InternalError
              | Some r \<Rightarrow> if r < days then Inr (False, Some r) else Inr (True, Some r)))"

definition update_leave_balance ::
  "leave_balance list \<Rightarrow> int \<Rightarrow> int \<Rightarrow> int \<Rightarrow> rat \<Rightarrow> bool \<times> leave_balance list" where
  "update_leave_balance bs e t y days_to_deduct =
     (case get_leave_balance bs e t y of
        None \<Rightarrow> (False, bs)
      | Some _ \<Rightarrow>
          (True,
           update_first (balance_filter e t y)
             (\<lambda>b. let b1 = b\<lparr>used_days := used_days b + days_to_deduct\<rparr>
                  in b1\<lparr>remaining_days := Some (total_allocated b1 - used_days b1)\<rparr>)
             bs))"

definition restore_leave_balance ::
  "leave_balance list \<Rightarrow> int \<Rightarrow> int \<Rightarrow> int \<Rightarrow> rat \<Rightarrow> bool \<times> leave_balance list" where
  "restore_leave_balance bs e t y days_to_restore =
     (case get_leave_balance bs e t y of
        None \<Rightarrow> (False, bs)
      | Some _ \<Rightarrow>
          (True,
           update_first (balance_filter e t y)
             (\<lambda>b. let b1 = b\<lparr>used_days := used_days b - days_to_restore\<rparr>
                  in b1\<lparr>remaining_days := Some (total_allocated b1 - used_days b1)\<rparr>)
             bs))"

definition can_approve_leave :: "employee list \<Rightarrow> employee \<Rightarrow> leave_application \<Rightarrow> bool" where
  "can_approve_leave emps current_user application =
     (if role current_user = ADMIN then True
      else if role current_user = MANAGER then
        la_employee_id application \<in> set (map employee_id (subordinates emps current_user))
      else False)"

definition can_modify_application :: "employee \<Rightarrow> leave_application \<Rightarrow> bool" where
  "can_modify_application current_user application =
     (if la_employee_id application = employee_id current_user
      then status application = PENDING
      else False)"

section \<open>The leave routes (\<^verbatim>\<open>src/app/api/v1/leaves.py\<close>)\<close>

text \<open>
  Each route takes the database, its path and body parameters and the authenticated
  caller. A body typed by a schema has passed that schema's validation, and a caller
  declared with \<^verbatim>\<open>Depends(get_current_manager_or_admin)\<close> has passed that dependency
  (dependencies are resolved before the body is validated).
  \<^verbatim>\<open>if current_user.manager_id:\<close> is Python truthiness: false for \<^verbatim>\<open>None\<close> and for 0.
\<close>

definition field_get :: "'a field \<Rightarrow> 'a \<Rightarrow> 'a option" where
  "field_get f dflt = (case f of Unset \<Rightarrow> Some dflt | Null \<Rightarrow> None | Value v \<Rightarrow> Some v)"

definition create_notification ::
  "db \<Rightarrow> int \<Rightarrow> string \<Rightarrow> notification_type \<Rightarrow> int \<Rightarrow> db" where
  "create_notification d e t ty app_id =
     d\<lparr>notifications := notifications d @
          [\<lparr>n_employee_id = e, title = t, n_type = ty, link_application_id = app_id\<rparr>]\<rparr>"

text \<open>
  The outcome of a route: an exception before the commit, or the committed database
  together with what the caller receives.
\<close>

datatype result = Raised error | Committed db "error + leave_application"

text \<open>
  The validation of the returned application against \<^verbatim>\<open>LeaveApplicationResponse\<close>, which
  inherits \<^verbatim>\<open>validate_dates\<close> and the \<^verbatim>\<open>min_length=1\<close> of \<^verbatim>\<open>reason\<close> from
  \<^verbatim>\<open>LeaveApplicationBase\<close>; a failure is answered with HTTP 500.
\<close>

definition response_model :: "leave_application \<Rightarrow> error + leave_application" where
  "response_model a =
     (case validate_dates (end_date a) (start_date a) of
        Inl _ \<Rightarrow> Inl InternalError
      | Inr _ \<Rightarrow> if length (reason a) < 1 then Inl InternalError else Inr a)"

text \<open>
  The end of a route: its body either raised, or committed a database and returns the
  refreshed application.
\<close>

fun respond :: "error + db \<times> leave_application \<Rightarrow> result" where
  "respond (Inl e) = Raised e"
| "respond (Inr (d, a)) = Committed d (response_model a)"

definition apply_for_leave ::
  "db \<Rightarrow> leave_application_create \<Rightarrow> employee \<Rightarrow> int \<Rightarrow> result" where
  "apply_for_leave d body current_user now =
     respond
     (case validate_create body of
        Inl e \<Rightarrow> Inl e
      | Inr leave_app \<Rightarrow>
          (case find (\<lambda>t. leave_type_id t = lac_leave_type_id leave_app) (leave_types d) of
             None \<Rightarrow> Inl NotFound
           | Some lt \<Rightarrow>
               let days = calculate_leave_days (lac_start_date leave_app) (lac_end_date leave_app);
                   y = date_year (lac_start_date leave_app);
                   balance =
                     find (balance_filter (employee_id current_user) (lac_leave_type_id leave_app) y)
                       (leave_balances d);
                   refused =
                     (case balance of
                        None \<Rightarrow> None
                      | Some b \<Rightarrow>
                          (case remaining_days b of
                             None \<Rightarrow> Some InternalError
                           | Some r \<Rightarrow> if r < days then Some (InsufficientBalance r) else None))
               in (case refused of
                    Some e \<Rightarrow> Inl e
                  | None \<Rightarrow>
                      let db_application =
                            \<lparr>leave_application_id = next_application_id d,
                             la_employee_id = employee_id current_user,
                             la_leave_type_id = lac_leave_type_id leave_app,
                             start_date = lac_start_date leave_app,
                             end_date = lac_end_date leave_app,
                             total_days = days,
                             reason = lac_reason leave_app,
                             status = PENDING,
                             approved_by = None,
                             applied_on = now,
                             approved_rejected_on = None,
                             rejection_reason = None,
                             attachments = lac_attachments leave_app\<rparr>;
                          d1 = commit_role current_user
                                 (d\<lparr>leave_applications := leave_applications d @ [db_application],
                                    next_application_id := next_application_id d + 1\<rparr>)
                      in Inr (case manager_id current_user of
                                None \<Rightarrow> d1
                              | Some m \<Rightarrow>
                                  if m = 0 then d1
                                  else create_notification d1 m ''New Leave Application'' LEAVE
                                         (leave_application_id db_application),
                              db_application))))"

definition approve_leave ::
  "db \<Rightarrow> int \<Rightarrow> leave_approval_request \<Rightarrow> employee \<Rightarrow> int \<Rightarrow> result" where
  "approve_leave d application_id body user now =
     respond
     (case get_current_manager_or_admin user of
        Inl e \<Rightarrow> Inl e
      | Inr current_user \<Rightarrow>
     (case validate_status (lar_status body) of
        Inl e \<Rightarrow> Inl e
      | Inr _ \<Rightarrow>
     (case find (\<lambda>a. leave_application_id a = application_id) (leave_applications d) of
        None \<Rightarrow> Inl NotFound
      | Some application \<Rightarrow>
          if status application \<noteq> PENDING then Inl InvalidStateTransition
          else
            let a1 = application\<lparr>status := lar_status body,
                                approved_by := Some (employee_id current_user),
                                approved_rejected_on := Some now\<rparr>;
                a2 = (if lar_status body = REJECTED
                      then a1\<lparr>rejection_reason := lar_rejection_reason body\<rparr> else a1);
                bs = (if lar_status body = APPROVED then
                        (let y = date_year (start_date a2);
                             p = balance_filter (la_employee_id a2) (la_leave_type_id a2) y
                         in case find p (leave_balances d) of
                              None \<Rightarrow> leave_balances d
                            | Some _ \<Rightarrow>
                                update_first p
                                  (\<lambda>b. let b1 = b\<lparr>used_days := used_days b + total_days a2\<rparr>
                                       in b1\<lparr>remaining_days :=
                                              Some (total_allocated b1 - used_days b1)\<rparr>)
                                  (leave_balances d))
                      else leave_balances d)
            in (case find (\<lambda>t. leave_type_id t = la_leave_type_id a2) (leave_types d) of
                 None \<Rightarrow> Inl InternalError
               | Some lt \<Rightarrow>
                   Inr (commit_role current_user
                          (create_notification
                             (d\<lparr>leave_applications :=
                                  update_first (\<lambda>a. leave_application_id a = application_id)
                                    (\<lambda>_. a2) (leave_applications d),
                                leave_balances := bs\<rparr>)
                             (la_employee_id a2)
                             (if lar_status body = APPROVED then ''Leave Application Approved''
                              else ''Leave Application Rejected'')
                             LEAVE application_id),
                        a2)))))"

definition cancel_leave :: "db \<Rightarrow> int \<Rightarrow> employee \<Rightarrow> result" where
  "cancel_leave d application_id current_user =
     respond
     (case find (\<lambda>a. leave_application_id a = application_id) (leave_applications d) of
        None \<Rightarrow> Inl NotFound
      | Some application \<Rightarrow>
          if la_employee_id application \<noteq> employee_id current_user then Inl Forbidden
          else if status application \<notin> set [PENDING, APPROVED] then Inl InvalidStateTransition
          else
            let bs = (if status application = APPROVED then
                        (let y = date_year (start_date application);
                             p = balance_filter (la_employee_id application)
                                   (la_leave_type_id application) y
                         in case find p (leave_balances d) of
                              None \<Rightarrow> leave_balances d
                            | Some _ \<Rightarrow>
                                update_first p
                                  (\<lambda>b. let b1 = b\<lparr>used_days := used_days b - total_days application\<rparr>
                                       in b1\<lparr>remaining_days :=
                                              Some (total_allocated b1 - used_days b1)\<rparr>)
                                  (leave_balances d))
                      else leave_balances d);
                a1 = application\<lparr>status := CANCELLED\<rparr>;
                d1 = d\<lparr>leave_applications :=
                         update_first (\<lambda>a. leave_application_id a = application_id)
                           (\<lambda>_. a1) (leave_applications d),
                       leave_balances := bs\<rparr>
            in (case manager_id current_user of
                 None \<Rightarrow> Inr (commit_role current_user d1, a1)
               | Some m \<Rightarrow>
                   if m = 0 then Inr (commit_role current_user d1, a1)
                   else
                     (case find (\<lambda>t. leave_type_id t = la_leave_type_id a1) (leave_types d) of
                        None \<Rightarrow> Inl InternalError
                      | Some lt \<Rightarrow>
                          Inr (commit_role current_user
                                 (create_notification d1 m ''Leave Application Cancelled'' LEAVE
                                    application_id),
                               a1))))"

text \<open>
  In \<^verbatim>\<open>update_leave_application\<close> a date sent as \<^verbatim>\<open>null\<close> makes
  \<^verbatim>\<open>calculate_leave_days\<close> raise \<^verbatim>\<open>TypeError\<close>, and a \<^verbatim>\<open>reason\<close> sent as \<^verbatim>\<open>null\<close>
  violates the column's \<^verbatim>\<open>nullable=False\<close> at the commit. The schema of the update has
  no validator of the dates, so the route can store an \<open>end_date\<close> before the
  \<open>start_date\<close>; it is the validation of the response that then fails, after the commit.
\<close>

definition update_leave_application ::
  "db \<Rightarrow> int \<Rightarrow> leave_application_update \<Rightarrow> employee \<Rightarrow> result" where
  "update_leave_application d application_id body current_user =
     respond
     (case validate_update body of
        Inl e \<Rightarrow> Inl e
      | Inr leave_update \<Rightarrow>
     (case find (\<lambda>a. leave_application_id a = application_id) (leave_applications d) of
        None \<Rightarrow> Inl NotFound
      | Some application \<Rightarrow>
          if la_employee_id application \<noteq> employee_id current_user then Inl Forbidden
          else if status application \<noteq> PENDING then Inl InvalidStateTransition
          else
            (case (if lau_start_date leave_update \<noteq> Unset \<or> lau_end_date leave_update \<noteq> Unset
                   then (case (field_get (lau_start_date leave_update) (start_date application),
                               field_get (lau_end_date leave_update) (end_date application)) of
                           (Some s, Some e) \<Rightarrow> Inr (Some (calculate_leave_days s e))
                         | _ \<Rightarrow> Inl InternalError)
                   else Inr None) of
               Inl e \<Rightarrow> Inl e
             | Inr new_total \<Rightarrow>
                 if lau_reason leave_update = Null then Inl InternalError
                 else
                   let a1 = application
                         \<lparr>start_date := (case lau_start_date leave_update of
                                          Value v \<Rightarrow> v | _ \<Rightarrow> start_date application),
                          end_date := (case lau_end_date leave_update of
                                        Value v \<Rightarrow> v | _ \<Rightarrow> end_date application),
                          reason := (case lau_reason leave_update of
                                      Value v \<Rightarrow> v | _ \<Rightarrow> reason application),
                          attachments := (case lau_attachments leave_update of
                                           Unset \<Rightarrow> attachments application
                                         | Null \<Rightarrow> None
                                         | Value v \<Rightarrow> Some v),
                          total_days := (case new_total of
                                          None \<Rightarrow> total_days application
                                        | Some t \<Rightarrow> t)\<rparr>
                   in Inr (commit_role current_user
                             (d\<lparr>leave_applications :=
                                  update_first (\<lambda>a. leave_application_id a = application_id)
                                    (\<lambda>_. a1) (leave_applications d)\<rparr>),
                           a1))))"

section \<open>The ledger invariant and the state machine\<close>

text \<open>The ledger invariant of a balance row.\<close>

definition balance_invariant :: "leave_balance \<Rightarrow> bool" where
  "balance_invariant b = (remaining_days b = Some (total_allocated b - used_days b))"

text \<open>
  The balance row that \<^verbatim>\<open>seed_employees\<close> of \<^verbatim>\<open>src/seed_data.py\<close> inserts for an
  employee and a leave type: nothing used, everything remaining.
\<close>

definition seed_balance :: "int \<Rightarrow> int \<Rightarrow> int \<Rightarrow> int \<Rightarrow> int \<Rightarrow> leave_balance" where
  "seed_balance bid e t current_year max_days_per_year =
     \<lparr>balance_id = bid, lb_employee_id = e, lb_leave_type_id = t, year = current_year,
      total_allocated = of_int max_days_per_year, used_days = 0,
      remaining_days = Some (of_int max_days_per_year)\<rparr>"

text \<open>
  The state machine in the specification's words:
  \<open>Pending \<rightarrow> {Approved, Rejected, Cancelled}\<close> and \<open>Approved \<rightarrow> Cancelled\<close>.
\<close>

fun transition_ok :: "leave_status \<Rightarrow> leave_status \<Rightarrow> bool" where
  "transition_ok PENDING APPROVED = True"
| "transition_ok PENDING REJECTED = True"
| "transition_ok PENDING CANCELLED = True"
| "transition_ok APPROVED CANCELLED = True"
| "transition_ok _ _ = False"

text \<open>One call of a state-changing leave route.\<close>

datatype operation =
    Apply leave_application_create employee int
  | Approve int leave_approval_request employee int
  | Cancel int employee
  | Update int leave_application_update employee

fun perform :: "db \<Rightarrow> operation \<Rightarrow> result" where
  "perform d (Apply body user now) = apply_for_leave d body user now"
| "perform d (Approve application_id body user now) = approve_leave d application_id body user now"
| "perform d (Cancel application_id user) = cancel_leave d application_id user"
| "perform d (Update application_id body user) = update_leave_application d application_id body user"

section \<open>A sample database\<close>

text \<open>
  The scenario of the specification: employee 1 reports to manager 2; manager 3 has no
  report; leave type 1 is annual leave; employee 1 has 20 days allocated for 2025, 5 used.
\<close>

definition emp1 :: employee where
  "emp1 = \<lparr>employee_id = 1, first_name = ''Eve'', last_name = ''Lee'',
           manager_id = Some 2, role = EMPLOYEE\<rparr>"

definition mgr2 :: employee where
  "mgr2 = \<lparr>employee_id = 2, first_name = ''Max'', last_name = ''Roe'',
           manager_id = None, role = MANAGER\<rparr>"

definition mgr3 :: employee where
  "mgr3 = \<lparr>employee_id = 3, first_name = ''Ann'', last_name = ''Poe'',
           manager_id = None, role = MANAGER\<rparr>"

definition annual :: leave_type where
  "annual = \<lparr>leave_type_id = 1, type_name = ''Annual Leave''\<rparr>"

definition bal1 :: leave_balance where
  "bal1 = \<lparr>balance_id = 1, lb_employee_id = 1, lb_leave_type_id = 1, year = 2025,
           total_allocated = 20, used_days = 5, remaining_days = Some 15\<rparr>"

definition app1 :: leave_application where
  "app1 = \<lparr>leave_application_id = 1, la_employee_id = 1, la_leave_type_id = 1,
           start_date = Date 2025 3 10, end_date = Date 2025 3 12, total_days = 3,
           reason = ''trip'', status = PENDING, approved_by = None, applied_on = 100,
           approved_rejected_on = None, rejection_reason = None, attachments = None\<rparr>"

definition db0 :: db where
  "db0 = \<lparr>employees = [emp1, mgr2, mgr3], leave_types = [annual], leave_balances = [bal1],
          leave_applications = [], notifications = [], next_application_id = 1\<rparr>"

definition db1 :: db where
  "db1 = db0\<lparr>leave_applications := [app1], next_application_id := 2\<rparr>"

definition req1 :: leave_application_create where
  "req1 = \<lparr>lac_leave_type_id = 1, lac_start_date = Date 2025 3 10,
           lac_end_date = Date 2025 3 12, lac_reason = ''trip'', lac_attachments = None\<rparr>"

definition req_backwards :: leave_application_create where
  "req_backwards = \<lparr>lac_leave_type_id = 1, lac_start_date = Date 2025 3 10,
           lac_end_date = Date 2025 3 9, lac_reason = ''trip'', lac_attachments = None\<rparr>"

definition approve_req :: leave_approval_request where
  "approve_req = \<lparr>lar_status = APPROVED, lar_rejection_reason = None\<rparr>"

definition app2 :: leave_application where
  "app2 = app1\<lparr>status := APPROVED, approved_by := Some 2, approved_rejected_on := Some 200\<rparr>"

definition bal2 :: leave_balance where
  "bal2 = bal1\<lparr>used_days := 8, remaining_days := Some 12\<rparr>"

definition db2 :: db where
  "db2 = db1\<lparr>leave_applications := [app2],
             leave_balances := [bal2],
             notifications := [\<lparr>n_employee_id = 1, title = ''Leave Application Approved'',
                                n_type = LEAVE, link_application_id = 1\<rparr>]\<rparr>"

definition app3 :: leave_application where
  "app3 = app2\<lparr>status := CANCELLED\<rparr>"

definition db3 :: db where
  "db3 = db2\<lparr>leave_applications := [app3],
             leave_balances := [bal1],
             notifications := [\<lparr>n_employee_id = 1, title = ''Leave Application Approved'',
                                n_type = LEAVE, link_application_id = 1\<rparr>,
                               \<lparr>n_employee_id = 2, title = ''Leave Application Cancelled'',
                                n_type = LEAVE, link_application_id = 1\<rparr>]\<rparr>"

definition app_rejected :: leave_application where
  "app_rejected = app1\<lparr>status := REJECTED, approved_by := Some 2, approved_rejected_on := Some 200,
                       rejection_reason := Some ''busy''\<rparr>"

definition db_rejected :: db where
  "db_rejected = db1\<lparr>leave_applications := [app_rejected]\<rparr>"

definition edit1 :: leave_application_update where
  "edit1 = \<lparr>lau_start_date = Unset, lau_end_date = Value (Date 2025 3 14),
            lau_reason = Value ''longer trip'', lau_attachments = Unset\<rparr>"

definition bal_low :: leave_balance where
  "bal_low = bal1\<lparr>total_allocated := 10, used_days := 9, remaining_days := Some 1\<rparr>"

definition db_low :: db where
  "db_low = db1\<lparr>leave_balances := [bal_low]\<rparr>"

definition reject_no_reason :: leave_approval_request where
  "reject_no_reason = \<lparr>lar_status = REJECTED, lar_rejection_reason = None\<rparr>"

definition reject_empty_reason :: leave_approval_request where
  "reject_empty_reason = \<lparr>lar_status = REJECTED, lar_rejection_reason = Some ''''\<rparr>"

definition bal_null :: leave_balance where
  "bal_null = bal1\<lparr>remaining_days := None\<rparr>"

definition db_null :: db where
  "db_null = db1\<lparr>leave_balances := [bal_null]\<rparr>"

definition bal_stale :: leave_balance where
  "bal_stale = bal1\<lparr>remaining_days := Some 10\<rparr>"

definition db_stale :: db where
  "db_stale = db1\<lparr>leave_balances := [bal_stale]\<rparr>"

definition edit_reversed :: leave_application_update where
  "edit_reversed = \<lparr>lau_start_date = Unset, lau_end_date = Value (Date 2025 3 8),
                    lau_reason = Unset, lau_attachments = Unset\<rparr>"

definition app_reversed :: leave_application where
  "app_reversed = app1\<lparr>end_date := Date 2025 3 8, total_days := - 1\<rparr>"

definition db_nobal :: db where
  "db_nobal = db0\<lparr>leave_balances := []\<rparr>"

section \<open>Auxiliary facts\<close>

lemmas sample_defs =
  emp1_def mgr2_def mgr3_def annual_def bal1_def app1_def db0_def db1_def req1_def

lemmas date_defs =
  calculate_leave_days_def toordinal_def days_before_year_def days_before_month_def
  days_in_month_def is_leap_def

lemma respond_Committed:
  "respond x = Committed d' res \<longleftrightarrow> (\<exists>a. x = Inr (d', a) \<and> res = response_model a)"
  by (cases x) auto

lemma respond_Raised: "respond x = Raised e \<longleftrightarrow> x = Inl e"
  by (cases x) auto

lemmas respond_iff = respond_Committed respond_Raised

lemma commit_role_tables [simp]:
  "leave_types (commit_role u d) = leave_types d"
  "leave_balances (commit_role u d) = leave_balances d"
  "leave_applications (commit_role u d) = leave_applications d"
  "notifications (commit_role u d) = notifications d"
  "next_application_id (commit_role u d) = next_application_id d"
  by (simp_all add: commit_role_def)

lemma find_update_first_same:
  assumes "\<And>x. p x \<Longrightarrow> p (f x)"
  shows "find p (update_first p f xs) = map_option f (find p xs)"
  using assms by (induction xs) auto

lemma find_update_first_other:
  assumes "\<And>x. p x \<Longrightarrow> \<not> q x \<and> \<not> q (f x)"
  shows "find q (update_first p f xs) = find q xs"
  using assms by (induction xs) auto

lemma find_Some_holds: "find p xs = Some x \<Longrightarrow> p x"
  by (induction xs) (auto split: if_splits)

section \<open>Submission with the dates reversed\<close>

text \<open>
  Claim C8. A submission whose \<open>end_date\<close> is before its \<open>start_date\<close> is refused with
  \<open>ValidationError\<close> by the request schema, whatever the database holds: no leave type,
  balance row or application is read, and nothing is written.
\<close>

theorem submit_end_before_start:
  assumes "date_less (lac_end_date body) (lac_start_date body)"
  shows "validate_create body = Inl ValidationError \<and>
         apply_for_leave d body current_user now = Raised ValidationError"
  using assms by (simp add: apply_for_leave_def validate_create_def validate_dates_def)

theorem submit_end_before_start_witness:
  "date_less (lac_end_date req_backwards) (lac_start_date req_backwards) \<and>
   apply_for_leave db0 req_backwards emp1 100 = Raised ValidationError"
proof -
  have h: "date_less (lac_end_date req_backwards) (lac_start_date req_backwards)"
    by (simp add: req_backwards_def date_less_def)
  from submit_end_before_start [OF h, of db0 emp1 100] h show ?thesis by simp
qed

section \<open>The ledger invariant after a debit or a credit\<close>

lemma approve_db1: "approve_leave db1 1 approve_req mgr2 200 = Committed db2 (Inr app2)"
  by (simp add: approve_leave_def response_model_def validate_dates_def date_less_def commit_role_def Let_def get_current_manager_or_admin_def validate_status_def
      balance_filter_def create_notification_def approve_req_def db2_def app2_def bal2_def sample_defs)

lemma cancel_db2: "cancel_leave db2 1 emp1 = Committed db3 (Inr app3)"
  by (simp add: cancel_leave_def app3_def response_model_def validate_dates_def date_less_def commit_role_def Let_def balance_filter_def create_notification_def db2_def db3_def app2_def bal2_def sample_defs)

lemma debit_row:
  assumes "get_leave_balance bs e t y = Some b"
  shows "get_leave_balance
           (update_first (balance_filter e t y)
             (\<lambda>b. let b1 = b\<lparr>used_days := used_days b + n\<rparr>
                  in b1\<lparr>remaining_days := Some (total_allocated b1 - used_days b1)\<rparr>) bs) e t y
         = Some (b\<lparr>used_days := used_days b + n,
                   remaining_days := Some (total_allocated b - (used_days b + n))\<rparr>)"
  using assms unfolding get_leave_balance_def
  by (subst find_update_first_same) (simp_all add: balance_filter_def Let_def)

lemma credit_row:
  assumes "get_leave_balance bs e t y = Some b"
  shows "get_leave_balance
           (update_first (balance_filter e t y)
             (\<lambda>b. let b1 = b\<lparr>used_days := used_days b - n\<rparr>
                  in b1\<lparr>remaining_days := Some (total_allocated b1 - used_days b1)\<rparr>) bs) e t y
         = Some (b\<lparr>used_days := used_days b - n,
                   remaining_days := Some (total_allocated b - (used_days b - n))\<rparr>)"
  using assms unfolding get_leave_balance_def
  by (subst find_update_first_same) (simp_all add: balance_filter_def Let_def)

lemma approve_balances:
  assumes "approve_leave d aid body user now = Committed d' res"
    and "lar_status body = APPROVED"
    and "find (\<lambda>a. leave_application_id a = aid) (leave_applications d) = Some a"
    and "get_leave_balance (leave_balances d) (la_employee_id a) (la_leave_type_id a)
           (date_year (start_date a)) = Some b"
  shows "leave_balances d' =
      update_first (balance_filter (la_employee_id a) (la_leave_type_id a) (date_year (start_date a)))
        (\<lambda>b. let b1 = b\<lparr>used_days := used_days b + total_days a\<rparr>
             in b1\<lparr>remaining_days := Some (total_allocated b1 - used_days b1)\<rparr>) (leave_balances d)"
  using assms
  by (auto simp: respond_iff approve_leave_def create_notification_def get_leave_balance_def Let_def
        split: sum.splits option.splits if_splits)

lemma cancel_balances:
  assumes "cancel_leave d aid user = Committed d' res"
    and "status a = APPROVED"
    and "find (\<lambda>a. leave_application_id a = aid) (leave_applications d) = Some a"
    and "get_leave_balance (leave_balances d) (la_employee_id a) (la_leave_type_id a)
           (date_year (start_date a)) = Some b"
  shows "leave_balances d' =
      update_first (balance_filter (la_employee_id a) (la_leave_type_id a) (date_year (start_date a)))
        (\<lambda>b. let b1 = b\<lparr>used_days := used_days b - total_days a\<rparr>
             in b1\<lparr>remaining_days := Some (total_allocated b1 - used_days b1)\<rparr>) (leave_balances d)"
  using assms
  by (auto simp: respond_iff cancel_leave_def create_notification_def get_leave_balance_def Let_def
        split: sum.splits option.splits if_splits)

lemma approve_debits_row:
  assumes "approve_leave d aid body user now = Committed d' res"
    and "lar_status body = APPROVED"
    and "find (\<lambda>a. leave_application_id a = aid) (leave_applications d) = Some a"
    and "get_leave_balance (leave_balances d) (la_employee_id a) (la_leave_type_id a)
           (date_year (start_date a)) = Some b"
  shows "get_leave_balance (leave_balances d') (la_employee_id a) (la_leave_type_id a)
           (date_year (start_date a)) =
         Some (b\<lparr>used_days := used_days b + total_days a,
                  remaining_days := Some (total_allocated b - (used_days b + total_days a))\<rparr>)"
  using approve_balances [OF assms] debit_row [OF assms(4)] by simp

lemma cancel_credits_row:
  assumes "cancel_leave d aid user = Committed d' res"
    and "status a = APPROVED"
    and "find (\<lambda>a. leave_application_id a = aid) (leave_applications d) = Some a"
    and "get_leave_balance (leave_balances d) (la_employee_id a) (la_leave_type_id a)
           (date_year (start_date a)) = Some b"
  shows "get_leave_balance (leave_balances d') (la_employee_id a) (la_leave_type_id a)
           (date_year (start_date a)) =
         Some (b\<lparr>used_days := used_days b - total_days a,
                  remaining_days := Some (total_allocated b - (used_days b - total_days a))\<rparr>)"
  using cancel_balances [OF assms] credit_row [OF assms(4)] by simp

lemma service_debit:
  assumes "get_leave_balance bs e t y = Some b"
  shows "fst (update_leave_balance bs e t y n) \<and>
         get_leave_balance (snd (update_leave_balance bs e t y n)) e t y =
           Some (b\<lparr>used_days := used_days b + n,
                    remaining_days := Some (total_allocated b - (used_days b + n))\<rparr>)"
  using assms debit_row [OF assms, of n] by (simp add: update_leave_balance_def)

lemma service_credit:
  assumes "get_leave_balance bs e t y = Some b"
  shows "fst (restore_leave_balance bs e t y n) \<and>
         get_leave_balance (snd (restore_leave_balance bs e t y n)) e t y =
           Some (b\<lparr>used_days := used_days b - n,
                    remaining_days := Some (total_allocated b - (used_days b - n))\<rparr>)"
  using assms credit_row [OF assms, of n] by (simp add: restore_leave_balance_def)

text \<open>
  Claim C5. Every operation that mutates a balance row leaves it with
  \<open>remaining_days = total_allocated - used_days\<close>: the debit of an approval
  (\<^verbatim>\<open>approve_leave\<close>), the credit of the cancellation of an approved application
  (\<^verbatim>\<open>cancel_leave\<close>), and the service functions \<^verbatim>\<open>update_leave_balance\<close> and
  \<^verbatim>\<open>restore_leave_balance\<close>. In each case the row is the one the operation looks up,
  and its \<open>used_days\<close> has moved by the days of the operation.
\<close>

theorem ledger_invariant_after_mutation:
  "(approve_leave d aid body user now = Committed d' res \<and> lar_status body = APPROVED \<and>
    find (\<lambda>x. leave_application_id x = aid) (leave_applications d) = Some a \<and>
    get_leave_balance (leave_balances d) (la_employee_id a) (la_leave_type_id a)
      (date_year (start_date a)) = Some b
    \<longrightarrow> (\<exists>b'. get_leave_balance (leave_balances d') (la_employee_id a) (la_leave_type_id a)
                (date_year (start_date a)) = Some b' \<and>
              used_days b' = used_days b + total_days a \<and> balance_invariant b'))
   \<and>
   (cancel_leave d aid user = Committed d' res \<and> status a = APPROVED \<and>
    find (\<lambda>x. leave_application_id x = aid) (leave_applications d) = Some a \<and>
    get_leave_balance (leave_balances d) (la_employee_id a) (la_leave_type_id a)
      (date_year (start_date a)) = Some b
    \<longrightarrow> (\<exists>b'. get_leave_balance (leave_balances d') (la_employee_id a) (la_leave_type_id a)
                (date_year (start_date a)) = Some b' \<and>
              used_days b' = used_days b - total_days a \<and> balance_invariant b'))
   \<and>
   (get_leave_balance bs e t y = Some b
    \<longrightarrow> (\<exists>b'. get_leave_balance (snd (update_leave_balance bs e t y n)) e t y = Some b' \<and>
              used_days b' = used_days b + n \<and> balance_invariant b'))
   \<and>
   (get_leave_balance bs e t y = Some b
    \<longrightarrow> (\<exists>b'. get_leave_balance (snd (restore_leave_balance bs e t y n)) e t y = Some b' \<and>
              used_days b' = used_days b - n \<and> balance_invariant b'))"
proof (intro conjI impI)
  assume h: "approve_leave d aid body user now = Committed d' res \<and> lar_status body = APPROVED \<and>
    find (\<lambda>x. leave_application_id x = aid) (leave_applications d) = Some a \<and>
    get_leave_balance (leave_balances d) (la_employee_id a) (la_leave_type_id a)
      (date_year (start_date a)) = Some b"
  then show "\<exists>b'. get_leave_balance (leave_balances d') (la_employee_id a) (la_leave_type_id a)
                (date_year (start_date a)) = Some b' \<and>
              used_days b' = used_days b + total_days a \<and> balance_invariant b'"
    using approve_debits_row [of d aid body user now d' res a b]
    by (simp add: balance_invariant_def)
next
  assume h: "cancel_leave d aid user = Committed d' res \<and> status a = APPROVED \<and>
    find (\<lambda>x. leave_application_id x = aid) (leave_applications d) = Some a \<and>
    get_leave_balance (leave_balances d) (la_employee_id a) (la_leave_type_id a)
      (date_year (start_date a)) = Some b"
  then show "\<exists>b'. get_leave_balance (leave_balances d') (la_employee_id a) (la_leave_type_id a)
                (date_year (start_date a)) = Some b' \<and>
              used_days b' = used_days b - total_days a \<and> balance_invariant b'"
    using cancel_credits_row [of d aid user d' res a b]
    by (simp add: balance_invariant_def)
next
  assume "get_leave_balance bs e t y = Some b"
  then show "\<exists>b'. get_leave_balance (snd (update_leave_balance bs e t y n)) e t y = Some b' \<and>
              used_days b' = used_days b + n \<and> balance_invariant b'"
    using service_debit [of bs e t y b n] by (simp add: balance_invariant_def)
next
  assume "get_leave_balance bs e t y = Some b"
  then show "\<exists>b'. get_leave_balance (snd (restore_leave_balance bs e t y n)) e t y = Some b' \<and>
              used_days b' = used_days b - n \<and> balance_invariant b'"
    using service_credit [of bs e t y b n] by (simp add: balance_invariant_def)
qed

lemma find_app1_db1:
  "find (\<lambda>x. leave_application_id x = 1) (leave_applications db1) = Some app1"
  by (simp add: sample_defs)

lemma bal_db1: "get_leave_balance (leave_balances db1) 1 1 2025 = Some bal1"
  by (simp add: get_leave_balance_def balance_filter_def sample_defs)

theorem ledger_invariant_after_mutation_witness:
  "(\<exists>b'. get_leave_balance (leave_balances db2) 1 1 2025 = Some b' \<and>
          used_days b' = 5 + 3 \<and> balance_invariant b') \<and>
   (\<exists>b'. get_leave_balance (leave_balances db3) 1 1 2025 = Some b' \<and>
          used_days b' = 8 - 3 \<and> balance_invariant b') \<and>
   (\<exists>b'. get_leave_balance (snd (update_leave_balance [bal1] 1 1 2025 2)) 1 1 2025 = Some b' \<and>
          used_days b' = 5 + 2 \<and> balance_invariant b') \<and>
   (\<exists>b'. get_leave_balance (snd (restore_leave_balance [bal1] 1 1 2025 2)) 1 1 2025 = Some b' \<and>
          used_days b' = 5 - 2 \<and> balance_invariant b')"
proof -
  have a1: "approve_leave db1 1 approve_req mgr2 200 = Committed db2 (Inr app2)"
    by (rule approve_db1)
  have a2: "lar_status approve_req = APPROVED" by (simp add: approve_req_def)
  have a4: "get_leave_balance (leave_balances db1) (la_employee_id app1) (la_leave_type_id app1)
      (date_year (start_date app1)) = Some bal1"
    using bal_db1 by (simp add: app1_def)
  note t1 = ledger_invariant_after_mutation
    [where d = db1 and aid = 1 and body = approve_req and user = mgr2 and now = 200
       and d' = db2 and res = "Inr app2" and a = app1 and b = bal1, THEN conjunct1, rule_format]
  have p1: "\<exists>b'. get_leave_balance (leave_balances db2) 1 1 2025 = Some b' \<and>
          used_days b' = 5 + 3 \<and> balance_invariant b'"
    using t1 a1 a2 find_app1_db1 a4 by (simp add: app1_def bal1_def)
  have c1: "cancel_leave db2 1 emp1 = Committed db3 (Inr app3)" by (rule cancel_db2)
  have c2: "status app2 = APPROVED" by (simp add: app2_def)
  have c3: "find (\<lambda>x. leave_application_id x = 1) (leave_applications db2) = Some app2"
    by (simp add: db2_def app2_def app1_def)
  have c4: "get_leave_balance (leave_balances db2) (la_employee_id app2) (la_leave_type_id app2)
      (date_year (start_date app2)) = Some bal2"
    by (simp add: get_leave_balance_def balance_filter_def db2_def bal2_def app2_def sample_defs)
  note t2 = ledger_invariant_after_mutation
    [where d = db2 and aid = 1 and user = emp1
       and d' = db3 and res = "Inr app3" and a = app2 and b = bal2,
      THEN conjunct2, THEN conjunct1, rule_format]
  have p2: "\<exists>b'. get_leave_balance (leave_balances db3) 1 1 2025 = Some b' \<and>
          used_days b' = 8 - 3 \<and> balance_invariant b'"
    using t2 c1 c2 c3 c4 by (simp add: app2_def app1_def bal2_def bal1_def)
  have s1: "get_leave_balance [bal1] 1 1 2025 = Some bal1"
    by (simp add: get_leave_balance_def balance_filter_def bal1_def)
  note t3 = ledger_invariant_after_mutation
    [where bs = "[bal1]" and e = 1 and t = 1 and y = 2025 and b = bal1 and n = 2,
      THEN conjunct2, THEN conjunct2]
  have p3: "\<exists>b'. get_leave_balance (snd (update_leave_balance [bal1] 1 1 2025 2)) 1 1 2025 = Some b' \<and>
          used_days b' = 5 + 2 \<and> balance_invariant b'"
    using t3 [THEN conjunct1, rule_format, OF s1] by (simp add: bal1_def)
  have p4: "\<exists>b'. get_leave_balance (snd (restore_leave_balance [bal1] 1 1 2025 2)) 1 1 2025 = Some b' \<and>
          used_days b' = 5 - 2 \<and> balance_invariant b'"
    using t3 [THEN conjunct2, rule_format, OF s1] by (simp add: bal1_def)
  from p1 p2 p3 p4 show ?thesis by blast
qed

section \<open>Approval followed by cancellation\<close>

lemma update_first_twice:
  assumes "\<And>x. p x \<Longrightarrow> p (g x)"
  shows "update_first p f (update_first p g xs) = update_first p (\<lambda>x. f (g x)) xs"
  using assms by (induction xs) auto

lemma update_first_fixed:
  assumes "find p xs = Some b" and "f b = b"
  shows "update_first p f xs = xs"
  using assms by (induction xs) (auto split: if_splits)

lemma approve_application:
  assumes "approve_leave d aid body user now = Committed d' res"
    and "find (\<lambda>x. leave_application_id x = aid) (leave_applications d) = Some a"
  shows "find (\<lambda>x. leave_application_id x = aid) (leave_applications d') =
         Some (a\<lparr>status := lar_status body,
                  approved_by := Some (employee_id user),
                  approved_rejected_on := Some now,
                  rejection_reason :=
                    (if lar_status body = REJECTED then lar_rejection_reason body
                     else rejection_reason a)\<rparr>)"
proof -
  have id: "leave_application_id a = aid"
    using find_Some_holds [OF assms(2)] .
  from assms id show ?thesis
    by (auto simp: respond_iff approve_leave_def create_notification_def get_current_manager_or_admin_def
        Let_def find_update_first_same
        split: sum.splits option.splits if_splits)
qed

lemma seed_balance_invariant: "balance_invariant (seed_balance bid e t y m)"
  by (simp add: balance_invariant_def seed_balance_def)

lemma list_all_update_first:
  assumes "list_all P xs" and "\<And>x. P (f x)"
  shows "list_all P (update_first p f xs)"
  using assms by (induction xs) auto

text \<open>
  Claim C4, as amended. When an application is approved and then cancelled by its owner,
  the balance row the two routes look up has, after the cancellation, the \<open>used_days\<close>
  it had before the approval: the credit subtracts the \<open>total_days\<close> that the debit
  added. Its \<open>remaining_days\<close> is then \<open>total_allocated - used_days\<close> of the row before
  the approval, which is the value it had before the approval exactly when the row
  satisfied the ledger invariant then; in that case the row and the whole ledger are back
  to what they were.
\<close>

theorem approve_cancel_round_trip:
  assumes "find (\<lambda>x. leave_application_id x = aid) (leave_applications d) = Some a"
    and "lar_status body = APPROVED"
    and "approve_leave d aid body approver now = Committed d1 res1"
    and "cancel_leave d1 aid owner = Committed d2 res2"
    and "get_leave_balance (leave_balances d) (la_employee_id a) (la_leave_type_id a)
           (date_year (start_date a)) = Some b"
  shows "\<exists>b2. get_leave_balance (leave_balances d2) (la_employee_id a) (la_leave_type_id a)
                (date_year (start_date a)) = Some b2 \<and>
              used_days b2 = used_days b \<and>
              total_allocated b2 = total_allocated b \<and>
              remaining_days b2 = Some (total_allocated b - used_days b) \<and>
              (remaining_days b2 = remaining_days b \<longleftrightarrow> balance_invariant b) \<and>
              (balance_invariant b \<longrightarrow> b2 = b \<and> leave_balances d2 = leave_balances d)"
proof -
  let ?e = "la_employee_id a" and ?t = "la_leave_type_id a" and ?y = "date_year (start_date a)"
  let ?a1 = "a\<lparr>status := lar_status body, approved_by := Some (employee_id approver),
                approved_rejected_on := Some now,
                rejection_reason := (if lar_status body = REJECTED then lar_rejection_reason body
                                     else rejection_reason a)\<rparr>"
  let ?b1 = "b\<lparr>used_days := used_days b + total_days a,
                remaining_days := Some (total_allocated b - (used_days b + total_days a))\<rparr>"
  let ?debit = "\<lambda>b. let b1 = b\<lparr>used_days := used_days b + total_days a\<rparr>
                    in b1\<lparr>remaining_days := Some (total_allocated b1 - used_days b1)\<rparr>"
  let ?credit = "\<lambda>b. let b1 = b\<lparr>used_days := used_days b - total_days a\<rparr>
                    in b1\<lparr>remaining_days := Some (total_allocated b1 - used_days b1)\<rparr>"
  have app1: "find (\<lambda>x. leave_application_id x = aid) (leave_applications d1) = Some ?a1"
    using approve_application [OF assms(3) assms(1)] .
  have st: "status ?a1 = APPROVED" using assms(2) by simp
  have row1: "get_leave_balance (leave_balances d1) ?e ?t ?y = Some ?b1"
    using approve_debits_row [OF assms(3) assms(2) assms(1) assms(5)] .
  have row1': "get_leave_balance (leave_balances d1) (la_employee_id ?a1) (la_leave_type_id ?a1)
                 (date_year (start_date ?a1)) = Some ?b1"
    using row1 by simp
  have row2: "get_leave_balance (leave_balances d2) ?e ?t ?y =
      Some (?b1\<lparr>used_days := used_days ?b1 - total_days ?a1,
                 remaining_days := Some (total_allocated ?b1 - (used_days ?b1 - total_days ?a1))\<rparr>)"
    using cancel_credits_row [OF assms(4) st app1 row1'] by simp
  have bs1: "leave_balances d1 = update_first (balance_filter ?e ?t ?y) ?debit (leave_balances d)"
    using approve_balances [OF assms(3) assms(2) assms(1) assms(5)] .
  have bs2: "leave_balances d2 = update_first (balance_filter ?e ?t ?y) ?credit (leave_balances d1)"
    using cancel_balances [OF assms(4) st app1 row1'] by simp
  have bs: "leave_balances d2 =
      update_first (balance_filter ?e ?t ?y) (\<lambda>x. ?credit (?debit x)) (leave_balances d)"
    unfolding bs2 bs1
    by (rule update_first_twice) (simp add: balance_filter_def Let_def)
  have fb: "find (balance_filter ?e ?t ?y) (leave_balances d) = Some b"
    using assms(5) by (simp add: get_leave_balance_def)
  have undo: "balance_invariant b \<Longrightarrow> ?credit (?debit b) = b"
    by (simp add: balance_invariant_def Let_def)
  have same: "balance_invariant b \<Longrightarrow> leave_balances d2 = leave_balances d"
    unfolding bs using fb undo by (rule update_first_fixed)
  show ?thesis
    using row2 same undo by (auto simp: balance_invariant_def Let_def)
qed

text \<open>
  Claim C4 as stated fails for \<open>remaining_days\<close>: the column is nullable and has no
  default, and a row whose \<open>remaining_days\<close> is null, or is 10 where
  \<open>total_allocated - used_days\<close> is 15, comes back from the round trip with 15.
\<close>

theorem approve_cancel_round_trip_counterexample:
  "get_leave_balance (leave_balances db_null) 1 1 2025 = Some bal_null \<and>
   remaining_days bal_null = None \<and>
   approve_leave db_null 1 approve_req mgr2 200 = Committed db2 (Inr app2) \<and>
   get_leave_balance (leave_balances db_stale) 1 1 2025 = Some bal_stale \<and>
   remaining_days bal_stale = Some 10 \<and>
   approve_leave db_stale 1 approve_req mgr2 200 = Committed db2 (Inr app2) \<and>
   cancel_leave db2 1 emp1 = Committed db3 (Inr app3) \<and>
   get_leave_balance (leave_balances db3) 1 1 2025 = Some bal1 \<and>
   used_days bal1 = used_days bal_null \<and> used_days bal1 = used_days bal_stale \<and>
   remaining_days bal1 = Some 15"
  by (simp add: approve_leave_def cancel_leave_def get_current_manager_or_admin_def
      validate_status_def get_leave_balance_def balance_filter_def create_notification_def
      response_model_def validate_dates_def date_less_def commit_role_def Let_def
      approve_req_def db_null_def bal_null_def db_stale_def bal_stale_def
      db2_def db3_def app2_def app3_def bal2_def sample_defs)

theorem approve_cancel_round_trip_witness:
  "\<exists>b2. get_leave_balance (leave_balances db3) 1 1 2025 = Some b2 \<and>
         used_days b2 = 5 \<and> total_allocated b2 = 20 \<and> remaining_days b2 = Some 15 \<and>
         b2 = bal1 \<and> leave_balances db3 = leave_balances db1"
proof -
  have h1: "find (\<lambda>x. leave_application_id x = 1) (leave_applications db1) = Some app1"
    by (rule find_app1_db1)
  have h2: "lar_status approve_req = APPROVED" by (simp add: approve_req_def)
  have h5: "get_leave_balance (leave_balances db1) (la_employee_id app1) (la_leave_type_id app1)
      (date_year (start_date app1)) = Some bal1"
    using bal_db1 by (simp add: app1_def)
  have inv: "balance_invariant bal1" by (simp add: balance_invariant_def bal1_def)
  from approve_cancel_round_trip [OF h1 h2 approve_db1 cancel_db2 h5] inv
  show ?thesis by (auto simp: app1_def bal1_def)
qed

section \<open>The status state machine\<close>

lemma find_append_Some: "find p xs = Some x \<Longrightarrow> find p (xs @ ys) = Some x"
  by (induction xs) (auto split: if_splits)

lemma apply_applications:
  assumes "apply_for_leave d body user now = Committed d' res"
    and "find (\<lambda>x. leave_application_id x = aid) (leave_applications d) = Some a"
  shows "find (\<lambda>x. leave_application_id x = aid) (leave_applications d') = Some a"
  using assms
  by (auto simp: respond_iff apply_for_leave_def create_notification_def Let_def find_append_Some
      split: sum.splits option.splits if_splits)

lemma approve_other:
  assumes "approve_leave d aid2 body user now = Committed d' res" and "aid \<noteq> aid2"
  shows "find (\<lambda>x. leave_application_id x = aid) (leave_applications d') =
         find (\<lambda>x. leave_application_id x = aid) (leave_applications d)"
proof -
  obtain a2 where f: "find (\<lambda>x. leave_application_id x = aid2) (leave_applications d) = Some a2"
    using assms(1) by (auto simp: respond_iff approve_leave_def split: sum.splits option.splits)
  have id: "leave_application_id a2 = aid2" using find_Some_holds [OF f] .
  from assms f id show ?thesis
    by (auto simp: respond_iff approve_leave_def create_notification_def Let_def
        intro!: find_update_first_other
        split: sum.splits option.splits if_splits)
qed

lemma cancel_application:
  assumes "cancel_leave d aid user = Committed d' res"
    and "find (\<lambda>x. leave_application_id x = aid) (leave_applications d) = Some a"
  shows "find (\<lambda>x. leave_application_id x = aid) (leave_applications d') =
         Some (a\<lparr>status := CANCELLED\<rparr>) \<and> status a \<in> set [PENDING, APPROVED] \<and>
         la_employee_id a = employee_id user"
proof -
  have id: "leave_application_id a = aid" using find_Some_holds [OF assms(2)] .
  from assms id show ?thesis
    by (auto simp: respond_iff cancel_leave_def create_notification_def Let_def find_update_first_same
        split: sum.splits option.splits if_splits)
qed

lemma cancel_other:
  assumes "cancel_leave d aid2 user = Committed d' res" and "aid \<noteq> aid2"
  shows "find (\<lambda>x. leave_application_id x = aid) (leave_applications d') =
         find (\<lambda>x. leave_application_id x = aid) (leave_applications d)"
proof -
  obtain a2 where f: "find (\<lambda>x. leave_application_id x = aid2) (leave_applications d) = Some a2"
    using assms(1) by (auto simp: respond_iff cancel_leave_def split: option.splits)
  have id: "leave_application_id a2 = aid2" using find_Some_holds [OF f] .
  from assms f id show ?thesis
    by (auto simp: respond_iff cancel_leave_def create_notification_def Let_def
        intro!: find_update_first_other
        split: sum.splits option.splits if_splits)
qed

lemma update_status:
  assumes "update_leave_application d aid body user = Committed d' res"
    and "find (\<lambda>x. leave_application_id x = aid) (leave_applications d) = Some a"
  shows "\<exists>a'. find (\<lambda>x. leave_application_id x = aid) (leave_applications d') = Some a' \<and>
              status a' = status a \<and> status a = PENDING"
proof -
  have id: "leave_application_id a = aid" using find_Some_holds [OF assms(2)] .
  from assms id show ?thesis
    by (auto simp: respond_iff update_leave_application_def Let_def find_update_first_same
        split: sum.splits option.splits if_splits prod.splits)
qed

lemma update_other:
  assumes "update_leave_application d aid2 body user = Committed d' res" and "aid \<noteq> aid2"
  shows "find (\<lambda>x. leave_application_id x = aid) (leave_applications d') =
         find (\<lambda>x. leave_application_id x = aid) (leave_applications d)"
proof -
  obtain a2 where f: "find (\<lambda>x. leave_application_id x = aid2) (leave_applications d) = Some a2"
    using assms(1) by (auto simp: respond_iff update_leave_application_def split: sum.splits option.splits)
  have id: "leave_application_id a2 = aid2" using find_Some_holds [OF f] .
  from assms f id show ?thesis
    by (auto simp: respond_iff update_leave_application_def Let_def
        intro!: find_update_first_other
        split: sum.splits option.splits if_splits prod.splits)
qed

lemma approve_needs_pending:
  assumes "approve_leave d aid body user now = Committed d' res"
    and "find (\<lambda>x. leave_application_id x = aid) (leave_applications d) = Some a"
  shows "status a = PENDING \<and> lar_status body \<in> set [APPROVED, REJECTED]"
  using assms
  by (auto simp: respond_iff approve_leave_def validate_status_def split: sum.splits option.splits if_splits)

lemma perform_step:
  assumes "perform d op = Committed d' res"
    and "find (\<lambda>x. leave_application_id x = aid) (leave_applications d) = Some a"
  shows "\<exists>a'. find (\<lambda>x. leave_application_id x = aid) (leave_applications d') = Some a' \<and>
              (status a' = status a \<or> transition_ok (status a) (status a'))"
proof (cases op)
  case (Apply body user now)
  with assms show ?thesis using apply_applications by auto
next
  case (Approve aid2 body user now)
  show ?thesis
  proof (cases "aid = aid2")
    case True
    with Approve assms approve_application [of d aid body user now d' res a]
      approve_needs_pending [of d aid body user now d' res a]
    show ?thesis by auto
  next
    case False
    with Approve assms approve_other [of d aid2 body user now d' res aid] show ?thesis by auto
  qed
next
  case (Cancel aid2 user)
  show ?thesis
  proof (cases "aid = aid2")
    case True
    with Cancel assms cancel_application [of d aid user d' res a] show ?thesis by auto
  next
    case False
    with Cancel assms cancel_other [of d aid2 user d' res aid] show ?thesis by auto
  qed
next
  case (Update aid2 body user)
  show ?thesis
  proof (cases "aid = aid2")
    case True
    with Update assms update_status [of d aid body user d' res a] show ?thesis by auto
  next
    case False
    with Update assms update_other [of d aid2 body user d' res aid] show ?thesis by auto
  qed
qed

lemma perform_terminal:
  assumes "perform d op = Committed d' res"
    and "status a \<in> set [REJECTED, CANCELLED]"
    and "find (\<lambda>x. leave_application_id x = aid) (leave_applications d) = Some a"
  shows "find (\<lambda>x. leave_application_id x = aid) (leave_applications d') = Some a"
proof (cases op)
  case (Apply body user now)
  with assms show ?thesis using apply_applications by auto
next
  case (Approve aid2 body user now)
  show ?thesis
  proof (cases "aid = aid2")
    case True
    with Approve assms approve_application [of d aid body user now d' res a]
      approve_needs_pending [of d aid body user now d' res a]
    show ?thesis by auto
  next
    case False
    with Approve assms approve_other [of d aid2 body user now d' res aid] show ?thesis by auto
  qed
next
  case (Cancel aid2 user)
  show ?thesis
  proof (cases "aid = aid2")
    case True
    with Cancel assms cancel_application [of d aid user d' res a] show ?thesis by auto
  next
    case False
    with Cancel assms cancel_other [of d aid2 user d' res aid] show ?thesis by auto
  qed
next
  case (Update aid2 body user)
  show ?thesis
  proof (cases "aid = aid2")
    case True
    with Update assms update_status [of d aid body user d' res a] show ?thesis by auto
  next
    case False
    with Update assms update_other [of d aid2 body user d' res aid] show ?thesis by auto
  qed
qed

text \<open>
  Claim C6. The status of an application moves only along
  \<open>Pending \<rightarrow> {Approved, Rejected, Cancelled}\<close> and \<open>Approved \<rightarrow> Cancelled\<close>:
  \<^item> a call of any route that commits, whatever the response that follows the commit,
    leaves the status of every application unchanged or moves it along one of these
    transitions (a call that raises before its commit writes nothing);
  \<^item> no call of any route that commits, by any caller, changes a \<open>Rejected\<close> or
    \<open>Cancelled\<close> application (the whole record stays as it is);
  \<^item> approve/reject on an application that is not \<open>Pending\<close> never commits, and fails
    with \<open>InvalidStateTransition\<close> for the callers the route admits (a manager or an
    admin, with a decision \<open>Approved\<close> or \<open>Rejected\<close>);
  \<^item> cancel on a \<open>Rejected\<close> or \<open>Cancelled\<close> application never commits, and fails with
    \<open>InvalidStateTransition\<close> when the caller is the owner (the route refuses any other
    caller with \<open>Forbidden\<close> before it looks at the status).
\<close>

theorem status_state_machine:
  "(perform d op = Committed d' res \<and>
    find (\<lambda>x. leave_application_id x = aid) (leave_applications d) = Some a
    \<longrightarrow> (\<exists>a'. find (\<lambda>x. leave_application_id x = aid) (leave_applications d') = Some a' \<and>
              (status a' = status a \<or> transition_ok (status a) (status a'))))
   \<and>
   (perform d op = Committed d' res \<and> status a \<in> set [REJECTED, CANCELLED] \<and>
    find (\<lambda>x. leave_application_id x = aid) (leave_applications d) = Some a
    \<longrightarrow> find (\<lambda>x. leave_application_id x = aid) (leave_applications d') = Some a)
   \<and>
   (find (\<lambda>x. leave_application_id x = aid) (leave_applications d) = Some a \<and>
    status a \<noteq> PENDING
    \<longrightarrow> (\<exists>e. approve_leave d aid body user now = Raised e) \<and>
        (role user \<in> set [ADMIN, MANAGER] \<and> lar_status body \<in> set [APPROVED, REJECTED]
         \<longrightarrow> approve_leave d aid body user now = Raised InvalidStateTransition))
   \<and>
   (find (\<lambda>x. leave_application_id x = aid) (leave_applications d) = Some a \<and>
    status a \<in> set [REJECTED, CANCELLED]
    \<longrightarrow> (\<exists>e. cancel_leave d aid user = Raised e) \<and>
        (la_employee_id a = employee_id user
         \<longrightarrow> cancel_leave d aid user = Raised InvalidStateTransition))"
proof (intro conjI impI)
  assume "perform d op = Committed d' res \<and>
    find (\<lambda>x. leave_application_id x = aid) (leave_applications d) = Some a"
  then show "\<exists>a'. find (\<lambda>x. leave_application_id x = aid) (leave_applications d') = Some a' \<and>
              (status a' = status a \<or> transition_ok (status a) (status a'))"
    using perform_step by blast
next
  assume "perform d op = Committed d' res \<and> status a \<in> set [REJECTED, CANCELLED] \<and>
    find (\<lambda>x. leave_application_id x = aid) (leave_applications d) = Some a"
  then show "find (\<lambda>x. leave_application_id x = aid) (leave_applications d') = Some a"
    using perform_terminal by blast
next
  assume "find (\<lambda>x. leave_application_id x = aid) (leave_applications d) = Some a \<and>
    status a \<noteq> PENDING"
  then show "\<exists>e. approve_leave d aid body user now = Raised e"
    by (auto simp: respond_iff approve_leave_def split: sum.splits)
next
  assume "find (\<lambda>x. leave_application_id x = aid) (leave_applications d) = Some a \<and>
    status a \<noteq> PENDING"
    and "role user \<in> set [ADMIN, MANAGER] \<and> lar_status body \<in> set [APPROVED, REJECTED]"
  then show "approve_leave d aid body user now = Raised InvalidStateTransition"
    by (auto simp: respond_iff approve_leave_def get_current_manager_or_admin_def validate_status_def)
next
  assume "find (\<lambda>x. leave_application_id x = aid) (leave_applications d) = Some a \<and>
    status a \<in> set [REJECTED, CANCELLED]"
  then show "\<exists>e. cancel_leave d aid user = Raised e"
    by (auto simp: respond_iff cancel_leave_def)
next
  assume "find (\<lambda>x. leave_application_id x = aid) (leave_applications d) = Some a \<and>
    status a \<in> set [REJECTED, CANCELLED]"
    and "la_employee_id a = employee_id user"
  then show "cancel_leave d aid user = Raised InvalidStateTransition"
    by (auto simp: respond_iff cancel_leave_def)
qed

theorem status_state_machine_witness:
  "(\<exists>a'. find (\<lambda>x. leave_application_id x = 1) (leave_applications db2) = Some a' \<and>
         transition_ok PENDING (status a')) \<and>
   (\<exists>d' res. perform db_rejected (Apply req1 emp1 300) = Committed d' res \<and>
         find (\<lambda>x. leave_application_id x = 1) (leave_applications d') = Some app_rejected) \<and>
   approve_leave db_rejected 1 approve_req mgr2 300 = Raised InvalidStateTransition \<and>
   cancel_leave db_rejected 1 emp1 = Raised InvalidStateTransition"
proof -
  have f: "find (\<lambda>x. leave_application_id x = 1) (leave_applications db_rejected) =
      Some app_rejected"
    by (simp add: db_rejected_def app_rejected_def sample_defs)
  have st: "status app_rejected \<in> set [REJECTED, CANCELLED]" "status app_rejected \<noteq> PENDING"
    by (simp_all add: app_rejected_def)
  have p: "perform db1 (Approve 1 approve_req mgr2 200) = Committed db2 (Inr app2)"
    using approve_db1 by simp
  note t1 = status_state_machine
    [where d = db1 and op = "Approve 1 approve_req mgr2 200" and d' = db2
       and res = "Inr app2" and aid = 1 and a = app1, THEN conjunct1, rule_format]
  have w1: "\<exists>a'. find (\<lambda>x. leave_application_id x = 1) (leave_applications db2) = Some a' \<and>
         transition_ok PENDING (status a')"
    using t1 p find_app1_db1 by (auto simp: app1_def db2_def app2_def)
  obtain d' res where q: "perform db_rejected (Apply req1 emp1 300) = Committed d' res"
    by (simp add: apply_for_leave_def validate_create_def validate_dates_def date_less_def
        balance_filter_def create_notification_def Let_def db_rejected_def sample_defs date_defs)
  note t2 = status_state_machine
    [where d = db_rejected and op = "Apply req1 emp1 300" and d' = d' and res = res
       and aid = 1 and a = app_rejected, THEN conjunct2, THEN conjunct1, rule_format]
  have w2: "\<exists>d' res. perform db_rejected (Apply req1 emp1 300) = Committed d' res \<and>
         find (\<lambda>x. leave_application_id x = 1) (leave_applications d') = Some app_rejected"
    using t2 q st(1) f by blast
  note t3 = status_state_machine
    [where d = db_rejected and aid = 1 and a = app_rejected and body = approve_req
       and user = mgr2 and now = 300, THEN conjunct2, THEN conjunct2, THEN conjunct1, rule_format]
  have w3: "approve_leave db_rejected 1 approve_req mgr2 300 = Raised InvalidStateTransition"
    using t3 f st(2) by (simp add: approve_req_def mgr2_def)
  note t4 = status_state_machine
    [where d = db_rejected and aid = 1 and a = app_rejected and user = emp1,
      THEN conjunct2, THEN conjunct2, THEN conjunct2, rule_format]
  have w4: "cancel_leave db_rejected 1 emp1 = Raised InvalidStateTransition"
    using t4 f st(1) by (simp add: app_rejected_def app1_def emp1_def)
  from w1 w2 w3 w4 show ?thesis by blast
qed

section \<open>The frame of an edit\<close>

lemma update_application:
  assumes "update_leave_application d aid body user = Committed d' res"
    and "find (\<lambda>x. leave_application_id x = aid) (leave_applications d) = Some a"
  shows "\<exists>a'. find (\<lambda>x. leave_application_id x = aid) (leave_applications d') = Some a' \<and>
           a' = a\<lparr>start_date := start_date a', end_date := end_date a', reason := reason a',
                  attachments := attachments a', total_days := total_days a'\<rparr> \<and>
           total_days a' =
             (if lau_start_date body \<noteq> Unset \<or> lau_end_date body \<noteq> Unset
              then calculate_leave_days (start_date a') (end_date a') else total_days a)"
proof -
  have id: "leave_application_id a = aid" using find_Some_holds [OF assms(2)] .
  from assms id show ?thesis
    by (auto simp: respond_iff update_leave_application_def validate_update_def field_get_def Let_def
        find_update_first_same
        split: sum.splits option.splits if_splits prod.splits field.splits)
qed

lemma update_response:
  assumes "update_leave_application d aid body user = Committed d' res"
    and "find (\<lambda>x. leave_application_id x = aid) (leave_applications d') = Some a'"
  shows "res = response_model a'"
proof -
  obtain a where f: "find (\<lambda>x. leave_application_id x = aid) (leave_applications d) = Some a"
    using assms(1)
    by (auto simp: respond_Committed update_leave_application_def
        split: sum.splits option.splits)
  have id: "leave_application_id a = aid" using find_Some_holds [OF f] .
  from assms f id show ?thesis
    by (auto simp: respond_iff update_leave_application_def Let_def
        find_update_first_same
        split: sum.splits option.splits if_splits prod.splits)
qed

lemma update_tables:
  assumes "update_leave_application d aid body user = Committed d' res"
  shows "d' = commit_role user (d\<lparr>leave_applications := leave_applications d'\<rparr>)"
  using assms
  by (auto simp: respond_iff update_leave_application_def Let_def
        commit_role_def
        split: sum.splits option.splits if_splits prod.splits)

lemma update_ignores_balances:
  assumes "update_leave_application d aid body user = Committed d' res"
  shows "update_leave_application (d\<lparr>leave_balances := bs\<rparr>) aid body user =
         Committed (d'\<lparr>leave_balances := bs\<rparr>) res"
  using assms
  by (auto simp: respond_iff update_leave_application_def Let_def
        commit_role_def
        split: sum.splits option.splits if_splits prod.splits)

text \<open>
  Claim C10. An edit that commits is an edit of a \<open>Pending\<close> application by its owner,
  and of the application it can change only \<open>start_date\<close>, \<open>end_date\<close>, \<open>reason\<close>,
  \<open>attachments\<close> and \<open>total_days\<close>, the last being recomputed from the new dates when
  a date was sent: \<open>status\<close>, \<open>employee_id\<close>, \<open>leave_type_id\<close>, \<open>approved_by\<close>,
  \<open>applied_on\<close> and \<open>rejection_reason\<close> keep their values. Every other application
  is unchanged, and so is every other table, in particular the balance rows, but for the
  role of the caller that the commit stores in the caller's own row of \<open>employees\<close>. The
  outcome does not depend on the balance rows: no balance is read. The caller receives
  the edited application, validated as a response.
\<close>

theorem edit_changes_only_its_fields:
  assumes "update_leave_application d aid body user = Committed d' res"
    and "find (\<lambda>x. leave_application_id x = aid) (leave_applications d) = Some a"
  shows "status a = PENDING \<and> la_employee_id a = employee_id user \<and>
    (\<exists>a'. find (\<lambda>x. leave_application_id x = aid) (leave_applications d') = Some a' \<and>
       a' = a\<lparr>start_date := start_date a', end_date := end_date a', reason := reason a',
              attachments := attachments a', total_days := total_days a'\<rparr> \<and>
       total_days a' =
         (if lau_start_date body \<noteq> Unset \<or> lau_end_date body \<noteq> Unset
          then calculate_leave_days (start_date a') (end_date a') else total_days a) \<and>
       status a' = status a \<and> la_employee_id a' = la_employee_id a \<and>
       la_leave_type_id a' = la_leave_type_id a \<and> approved_by a' = approved_by a \<and>
       applied_on a' = applied_on a \<and> rejection_reason a' = rejection_reason a \<and>
       approved_rejected_on a' = approved_rejected_on a \<and>
       leave_application_id a' = leave_application_id a \<and>
       res = response_model a') \<and>
    (\<forall>other. other \<noteq> aid \<longrightarrow>
       find (\<lambda>x. leave_application_id x = other) (leave_applications d') =
       find (\<lambda>x. leave_application_id x = other) (leave_applications d)) \<and>
    leave_balances d' = leave_balances d \<and>
    leave_types d' = leave_types d \<and>
    notifications d' = notifications d \<and>
    next_application_id d' = next_application_id d \<and>
    d' = commit_role user (d\<lparr>leave_applications := leave_applications d'\<rparr>) \<and>
    (\<forall>bs. update_leave_application (d\<lparr>leave_balances := bs\<rparr>) aid body user =
          Committed (d'\<lparr>leave_balances := bs\<rparr>) res)"
proof -
  have pre: "status a = PENDING \<and> la_employee_id a = employee_id user"
    using assms
    by (auto simp: respond_iff update_leave_application_def
        split: sum.splits option.splits if_splits)
  obtain a' where a': "find (\<lambda>x. leave_application_id x = aid) (leave_applications d') = Some a'"
      "a' = a\<lparr>start_date := start_date a', end_date := end_date a', reason := reason a',
              attachments := attachments a', total_days := total_days a'\<rparr>"
      "total_days a' =
         (if lau_start_date body \<noteq> Unset \<or> lau_end_date body \<noteq> Unset
          then calculate_leave_days (start_date a') (end_date a') else total_days a)"
    using update_application [OF assms] by blast
  have fields: "status a' = status a \<and> la_employee_id a' = la_employee_id a \<and>
       la_leave_type_id a' = la_leave_type_id a \<and> approved_by a' = approved_by a \<and>
       applied_on a' = applied_on a \<and> rejection_reason a' = rejection_reason a \<and>
       approved_rejected_on a' = approved_rejected_on a \<and>
       leave_application_id a' = leave_application_id a"
    by (subst a'(2), simp)+
  have resp: "res = response_model a'"
    using update_response [OF assms(1) a'(1)] .
  have others: "\<forall>other. other \<noteq> aid \<longrightarrow>
       find (\<lambda>x. leave_application_id x = other) (leave_applications d') =
       find (\<lambda>x. leave_application_id x = other) (leave_applications d)"
    using update_other [OF assms(1)] by blast
  have tabs: "d' = commit_role user (d\<lparr>leave_applications := leave_applications d'\<rparr>)"
    using update_tables [OF assms(1)] .
  have bal: "leave_balances d' = leave_balances d" "leave_types d' = leave_types d"
    "notifications d' = notifications d" "next_application_id d' = next_application_id d"
    by (subst tabs, simp)+
  have indep: "\<forall>bs. update_leave_application (d\<lparr>leave_balances := bs\<rparr>) aid body user =
          Committed (d'\<lparr>leave_balances := bs\<rparr>) res"
    using update_ignores_balances [OF assms(1)] by blast
  from pre a' fields resp others tabs bal indep show ?thesis by blast
qed

theorem edit_changes_only_its_fields_witness:
  "\<exists>d' res. update_leave_application db1 1 edit1 emp1 = Committed d' res \<and>
      leave_balances d' = leave_balances db1 \<and>
      (\<exists>a'. find (\<lambda>x. leave_application_id x = 1) (leave_applications d') = Some a' \<and>
            status a' = PENDING \<and> la_employee_id a' = 1 \<and> approved_by a' = None \<and>
            applied_on a' = 100 \<and> rejection_reason a' = None \<and>
            total_days a' = calculate_leave_days (start_date a') (end_date a') \<and>
            res = response_model a')"
proof -
  obtain d' res where r: "update_leave_application db1 1 edit1 emp1 = Committed d' res"
    by (simp add: update_leave_application_def validate_update_def field_get_def edit1_def
        Let_def sample_defs)
  from edit_changes_only_its_fields [OF r find_app1_db1] r show ?thesis
    by (auto simp: app1_def edit1_def)
qed

section \<open>Approval does not check the balance\<close>

lemma approve_commits:
  assumes "find (\<lambda>x. leave_application_id x = aid) (leave_applications d) = Some a"
    and "status a = PENDING"
    and "role user \<in> set [ADMIN, MANAGER]"
    and "lar_status body \<in> set [APPROVED, REJECTED]"
    and "find (\<lambda>t. leave_type_id t = la_leave_type_id a) (leave_types d) = Some lt"
  shows "\<exists>d'. approve_leave d aid body user now =
           Committed d'
             (response_model
                (a\<lparr>status := lar_status body, approved_by := Some (employee_id user),
                   approved_rejected_on := Some now,
                   rejection_reason :=
                     (if lar_status body = REJECTED then lar_rejection_reason body
                      else rejection_reason a)\<rparr>))"
  using assms
  by (auto simp: approve_leave_def get_current_manager_or_admin_def validate_status_def Let_def)

lemma approve_other_rows:
  assumes "approve_leave d aid body user now = Committed d' res"
    and "find (\<lambda>x. leave_application_id x = aid) (leave_applications d) = Some a"
    and "(e, t, y) \<noteq> (la_employee_id a, la_leave_type_id a, date_year (start_date a))"
  shows "get_leave_balance (leave_balances d') e t y = get_leave_balance (leave_balances d) e t y"
  using assms
  by (auto simp: respond_iff approve_leave_def create_notification_def
      get_leave_balance_def Let_def balance_filter_def
      intro!: find_update_first_other
      split: sum.splits option.splits if_splits)

lemma response_model_cases:
  "(date_less (end_date a) (start_date a) \<longrightarrow> response_model a = Inl InternalError) \<and>
   (\<not> date_less (end_date a) (start_date a) \<and> reason a \<noteq> [] \<longrightarrow> response_model a = Inr a)"
  by (simp add: response_model_def validate_dates_def)

text \<open>
  Claim C1, as amended. \<^verbatim>\<open>approve_leave\<close> performs no balance check. For a \<open>Pending\<close>
  application whose balance row and leave type exist, an approval by a manager or an
  admin is committed whatever the row's \<open>remaining_days\<close>, also when it is less than
  \<open>total_days\<close>: the commit stores the status \<open>Approved\<close> together with the debit of the
  row (\<open>used_days\<close> grows by \<open>total_days\<close>, \<open>remaining_days\<close> becomes
  \<open>total_allocated - used_days\<close>, possibly negative), and the rows of other keys are
  unchanged. The caller receives the approved application when it validates as a response
  (\<open>end_date\<close> not before \<open>start_date\<close>, \<open>reason\<close> not empty), and HTTP 500, after the
  commit, when \<open>end_date\<close> is before \<open>start_date\<close>. Every approval with decision
  \<open>Approved\<close> of this application that commits, by whatever caller, has written both the
  status and the debit.
\<close>

theorem approve_debits_without_check:
  assumes "find (\<lambda>x. leave_application_id x = aid) (leave_applications d) = Some a"
    and "status a = PENDING"
    and "role user \<in> set [ADMIN, MANAGER]"
    and "find (\<lambda>t. leave_type_id t = la_leave_type_id a) (leave_types d) = Some lt"
    and "get_leave_balance (leave_balances d) (la_employee_id a) (la_leave_type_id a)
           (date_year (start_date a)) = Some b"
    and "a' = a\<lparr>status := APPROVED, approved_by := Some (employee_id user),
                 approved_rejected_on := Some now\<rparr>"
  shows "(\<exists>d'. approve_leave d aid \<lparr>lar_status = APPROVED, lar_rejection_reason = r\<rparr> user now
               = Committed d' (response_model a') \<and>
           find (\<lambda>x. leave_application_id x = aid) (leave_applications d') = Some a' \<and>
           get_leave_balance (leave_balances d') (la_employee_id a) (la_leave_type_id a)
             (date_year (start_date a)) =
             Some (b\<lparr>used_days := used_days b + total_days a,
                      remaining_days := Some (total_allocated b - (used_days b + total_days a))\<rparr>) \<and>
           (\<forall>e t y. (e, t, y) \<noteq> (la_employee_id a, la_leave_type_id a, date_year (start_date a))
              \<longrightarrow> get_leave_balance (leave_balances d') e t y =
                  get_leave_balance (leave_balances d) e t y)) \<and>
         (date_less (end_date a) (start_date a) \<longrightarrow> response_model a' = Inl InternalError) \<and>
         (\<not> date_less (end_date a) (start_date a) \<and> reason a \<noteq> []
            \<longrightarrow> response_model a' = Inr a') \<and>
         (\<forall>body2 user2 now2 d2 res2.
            lar_status body2 = APPROVED \<and>
            approve_leave d aid body2 user2 now2 = Committed d2 res2
            \<longrightarrow> (\<exists>a2. find (\<lambda>x. leave_application_id x = aid) (leave_applications d2) = Some a2 \<and>
                      status a2 = APPROVED) \<and>
                get_leave_balance (leave_balances d2) (la_employee_id a) (la_leave_type_id a)
                  (date_year (start_date a)) =
                  Some (b\<lparr>used_days := used_days b + total_days a,
                           remaining_days :=
                             Some (total_allocated b - (used_days b + total_days a))\<rparr>))"
proof -
  let ?body = "\<lparr>lar_status = APPROVED, lar_rejection_reason = r\<rparr>"
  have st: "lar_status ?body = APPROVED" by simp
  obtain d' where ok: "approve_leave d aid ?body user now = Committed d' (response_model a')"
    using approve_commits [OF assms(1-3) _ assms(4), of ?body now] assms(6) by auto
  have app: "find (\<lambda>x. leave_application_id x = aid) (leave_applications d') = Some a'"
    using approve_application [OF ok assms(1)] assms(6) by simp
  have row: "get_leave_balance (leave_balances d') (la_employee_id a) (la_leave_type_id a)
             (date_year (start_date a)) =
             Some (b\<lparr>used_days := used_days b + total_days a,
                      remaining_days := Some (total_allocated b - (used_days b + total_days a))\<rparr>)"
    using approve_debits_row [OF ok st assms(1) assms(5)] .
  have others: "\<forall>e t y. (e, t, y) \<noteq> (la_employee_id a, la_leave_type_id a, date_year (start_date a))
              \<longrightarrow> get_leave_balance (leave_balances d') e t y =
                  get_leave_balance (leave_balances d) e t y"
    using approve_other_rows [OF ok assms(1)] by blast
  have resp: "(date_less (end_date a) (start_date a) \<longrightarrow> response_model a' = Inl InternalError) \<and>
         (\<not> date_less (end_date a) (start_date a) \<and> reason a \<noteq> []
            \<longrightarrow> response_model a' = Inr a')"
    using response_model_cases [of a'] assms(6) by simp
  have both: "\<forall>body2 user2 now2 d2 res2.
            lar_status body2 = APPROVED \<and>
            approve_leave d aid body2 user2 now2 = Committed d2 res2
            \<longrightarrow> (\<exists>a2. find (\<lambda>x. leave_application_id x = aid) (leave_applications d2) = Some a2 \<and>
                      status a2 = APPROVED) \<and>
                get_leave_balance (leave_balances d2) (la_employee_id a) (la_leave_type_id a)
                  (date_year (start_date a)) =
                  Some (b\<lparr>used_days := used_days b + total_days a,
                           remaining_days :=
                             Some (total_allocated b - (used_days b + total_days a))\<rparr>)"
  proof (intro allI impI)
    fix body2 user2 now2 d2 res2
    assume h: "lar_status body2 = APPROVED \<and>
            approve_leave d aid body2 user2 now2 = Committed d2 res2"
    then have c: "approve_leave d aid body2 user2 now2 = Committed d2 res2"
      and s2: "lar_status body2 = APPROVED" by simp_all
    show "(\<exists>a2. find (\<lambda>x. leave_application_id x = aid) (leave_applications d2) = Some a2 \<and>
                      status a2 = APPROVED) \<and>
                get_leave_balance (leave_balances d2) (la_employee_id a) (la_leave_type_id a)
                  (date_year (start_date a)) =
                  Some (b\<lparr>used_days := used_days b + total_days a,
                           remaining_days :=
                             Some (total_allocated b - (used_days b + total_days a))\<rparr>)"
      using approve_application [OF c assms(1)] approve_debits_row [OF c s2 assms(1) assms(5)] s2
      by simp
  qed
  from ok app row others resp both show ?thesis by blast
qed

text \<open>
  Claim C1 as stated fails: with 1 day remaining, the approval of a pending 3-day
  application is committed and answered with the approved application; the row goes to
  12 used days and -2 remaining days.
\<close>

theorem approve_insufficient_counterexample:
  "status app1 = PENDING \<and> total_days app1 = 3 \<and>
   find (\<lambda>x. leave_application_id x = 1) (leave_applications db_low) = Some app1 \<and>
   get_leave_balance (leave_balances db_low) 1 1 2025 = Some bal_low \<and>
   remaining_days bal_low = Some 1 \<and>
   approve_leave db_low 1 approve_req mgr2 200 =
     Committed
       (db_low\<lparr>leave_applications := [app2],
               leave_balances := [bal_low\<lparr>used_days := 12, remaining_days := Some (- 2)\<rparr>],
               notifications := [\<lparr>n_employee_id = 1, title = ''Leave Application Approved'',
                                  n_type = LEAVE, link_application_id = 1\<rparr>]\<rparr>)
       (Inr app2) \<and>
   status app2 = APPROVED"
  by (simp add: approve_leave_def get_current_manager_or_admin_def validate_status_def
      get_leave_balance_def balance_filter_def create_notification_def approve_req_def
      response_model_def validate_dates_def date_less_def commit_role_def Let_def
      db_low_def bal_low_def app2_def sample_defs)

theorem approve_debits_without_check_witness:
  "(\<exists>d'. approve_leave db_low 1 \<lparr>lar_status = APPROVED, lar_rejection_reason = None\<rparr> mgr2 200
           = Committed d' (Inr app2) \<and>
        find (\<lambda>x. leave_application_id x = 1) (leave_applications d') = Some app2 \<and>
        get_leave_balance (leave_balances d') 1 1 2025 =
          Some (bal_low\<lparr>used_days := 12, remaining_days := Some (- 2)\<rparr>)) \<and>
   response_model app2 = Inr app2"
proof -
  have h1: "find (\<lambda>x. leave_application_id x = 1) (leave_applications db_low) = Some app1"
    by (simp add: db_low_def sample_defs)
  have h2: "status app1 = PENDING" by (simp add: app1_def)
  have h3: "role mgr2 \<in> set [ADMIN, MANAGER]" by (simp add: mgr2_def)
  have h4: "find (\<lambda>t. leave_type_id t = la_leave_type_id app1) (leave_types db_low) = Some annual"
    by (simp add: db_low_def sample_defs)
  have h5: "get_leave_balance (leave_balances db_low) (la_employee_id app1) (la_leave_type_id app1)
           (date_year (start_date app1)) = Some bal_low"
    by (simp add: get_leave_balance_def balance_filter_def db_low_def bal_low_def sample_defs)
  have h6: "app2 = app1\<lparr>status := APPROVED, approved_by := Some (employee_id mgr2),
                 approved_rejected_on := Some 200\<rparr>"
    by (simp add: app2_def mgr2_def)
  have dates: "\<not> date_less (end_date app1) (start_date app1) \<and> reason app1 \<noteq> []"
    by (simp add: app1_def date_less_def)
  from approve_debits_without_check [OF h1 h2 h3 h4 h5 h6, of None] dates
  show ?thesis
    by (auto simp: app1_def bal_low_def bal1_def)
qed

section \<open>Rejection and its reason\<close>

text \<open>
  Claim C7, as amended. \<^verbatim>\<open>LeaveApprovalRequest.rejection_reason\<close> is optional and is
  not validated. For a \<open>Pending\<close> application whose leave type exists, a rejection by a
  manager or an admin is committed for every \<open>rejection_reason\<close>, absent and empty
  included: the commit stores the status \<open>Rejected\<close> and, as the application's
  \<open>rejection_reason\<close>, the supplied value as it is; no balance row changes. The caller
  receives the rejected application when it validates as a response (\<open>end_date\<close> not
  before \<open>start_date\<close>, \<open>reason\<close> not empty), and HTTP 500, after the commit, when
  \<open>end_date\<close> is before \<open>start_date\<close>.
\<close>

theorem reject_keeps_supplied_reason:
  assumes "find (\<lambda>x. leave_application_id x = aid) (leave_applications d) = Some a"
    and "status a = PENDING"
    and "role user \<in> set [ADMIN, MANAGER]"
    and "find (\<lambda>t. leave_type_id t = la_leave_type_id a) (leave_types d) = Some lt"
    and "a' = a\<lparr>status := REJECTED, approved_by := Some (employee_id user),
                 approved_rejected_on := Some now, rejection_reason := r\<rparr>"
  shows "(\<exists>d'. approve_leave d aid \<lparr>lar_status = REJECTED, lar_rejection_reason = r\<rparr> user now
               = Committed d' (response_model a') \<and>
           find (\<lambda>x. leave_application_id x = aid) (leave_applications d') = Some a' \<and>
           leave_balances d' = leave_balances d) \<and>
         (date_less (end_date a) (start_date a) \<longrightarrow> response_model a' = Inl InternalError) \<and>
         (\<not> date_less (end_date a) (start_date a) \<and> reason a \<noteq> []
            \<longrightarrow> response_model a' = Inr a')"
proof -
  let ?body = "\<lparr>lar_status = REJECTED, lar_rejection_reason = r\<rparr>"
  obtain d' where ok: "approve_leave d aid ?body user now = Committed d' (response_model a')"
    using approve_commits [OF assms(1-3) _ assms(4), of ?body now] assms(5) by auto
  have app: "find (\<lambda>x. leave_application_id x = aid) (leave_applications d') = Some a'"
    using approve_application [OF ok assms(1)] assms(5) by simp
  have bal: "leave_balances d' = leave_balances d"
    using ok
    by (auto simp: respond_iff approve_leave_def create_notification_def
        Let_def
        split: sum.splits option.splits if_splits)
  have resp: "(date_less (end_date a) (start_date a) \<longrightarrow> response_model a' = Inl InternalError) \<and>
         (\<not> date_less (end_date a) (start_date a) \<and> reason a \<noteq> []
            \<longrightarrow> response_model a' = Inr a')"
    using response_model_cases [of a'] assms(5) by simp
  from ok app bal resp show ?thesis by blast
qed

text \<open>
  Claim C7 as stated fails: a rejection with no reason, and one with the empty reason,
  are both committed and answered with the application, now \<open>Rejected\<close>.
\<close>

theorem reject_without_reason_counterexample:
  "status app1 = PENDING \<and>
   find (\<lambda>x. leave_application_id x = 1) (leave_applications db1) = Some app1 \<and>
   approve_leave db1 1 reject_no_reason mgr2 200 =
     Committed
       (db1\<lparr>leave_applications :=
               [app1\<lparr>status := REJECTED, approved_by := Some 2,
                      approved_rejected_on := Some 200, rejection_reason := None\<rparr>],
            notifications := [\<lparr>n_employee_id = 1, title = ''Leave Application Rejected'',
                               n_type = LEAVE, link_application_id = 1\<rparr>]\<rparr>)
       (Inr (app1\<lparr>status := REJECTED, approved_by := Some 2,
                  approved_rejected_on := Some 200, rejection_reason := None\<rparr>)) \<and>
   approve_leave db1 1 reject_empty_reason mgr2 200 =
     Committed
       (db1\<lparr>leave_applications :=
               [app1\<lparr>status := REJECTED, approved_by := Some 2,
                      approved_rejected_on := Some 200, rejection_reason := Some ''''\<rparr>],
            notifications := [\<lparr>n_employee_id = 1, title = ''Leave Application Rejected'',
                               n_type = LEAVE, link_application_id = 1\<rparr>]\<rparr>)
       (Inr (app1\<lparr>status := REJECTED, approved_by := Some 2,
                  approved_rejected_on := Some 200, rejection_reason := Some ''''\<rparr>))"
  by (simp add: approve_leave_def get_current_manager_or_admin_def validate_status_def
      balance_filter_def create_notification_def reject_no_reason_def reject_empty_reason_def
      response_model_def validate_dates_def date_less_def commit_role_def Let_def
      sample_defs)

theorem reject_keeps_supplied_reason_witness:
  "(\<exists>d'. approve_leave db1 1 \<lparr>lar_status = REJECTED, lar_rejection_reason = Some ''busy''\<rparr> mgr2 200
           = Committed d' (Inr app_rejected) \<and>
        find (\<lambda>x. leave_application_id x = 1) (leave_applications d') = Some app_rejected \<and>
        leave_balances d' = leave_balances db1) \<and>
   response_model app_rejected = Inr app_rejected"
proof -
  have h2: "status app1 = PENDING" by (simp add: app1_def)
  have h3: "role mgr2 \<in> set [ADMIN, MANAGER]" by (simp add: mgr2_def)
  have h4: "find (\<lambda>t. leave_type_id t = la_leave_type_id app1) (leave_types db1) = Some annual"
    by (simp add: sample_defs)
  have h5: "app_rejected = app1\<lparr>status := REJECTED, approved_by := Some (employee_id mgr2),
                 approved_rejected_on := Some 200, rejection_reason := Some ''busy''\<rparr>"
    by (simp add: app_rejected_def mgr2_def)
  have dates: "\<not> date_less (end_date app1) (start_date app1) \<and> reason app1 \<noteq> []"
    by (simp add: app1_def date_less_def)
  from reject_keeps_supplied_reason [OF find_app1_db1 h2 h3 h4 h5] dates
  show ?thesis by auto
qed

section \<open>Submission without a balance row\<close>

text \<open>
  Claim C2 (the route does not do what the claim and the service layer say). With no
  balance row for the employee, the leave type and the year, the service function
  \<^verbatim>\<open>has_sufficient_balance\<close> answers that the balance is not sufficient, but the route
  \<^verbatim>\<open>apply_for_leave\<close> tests \<^verbatim>\<open>if balance and ...\<close>, skips the check, creates the
  \<open>Pending\<close> application and answers with it. The caller is employee 1 as
  \<^verbatim>\<open>get_current_user\<close> returns it for a token of employee 1.
\<close>

theorem submit_without_balance_row_is_accepted:
  "get_current_user (employees db_nobal) \<lparr>token_sub = 1, token_role = EMPLOYEE\<rparr> = Inr emp1 \<and>
   get_leave_balance (leave_balances db_nobal) (employee_id emp1) (lac_leave_type_id req1)
     (date_year (lac_start_date req1)) = None \<and>
   has_sufficient_balance (leave_balances db_nobal) (employee_id emp1) (lac_leave_type_id req1)
     (lac_start_date req1) (lac_end_date req1) = Inr (False, None) \<and>
   apply_for_leave db_nobal req1 emp1 100 =
     Committed
       (db_nobal\<lparr>leave_applications := [app1], next_application_id := 2,
                 notifications := [\<lparr>n_employee_id = 2, title = ''New Leave Application'',
                                    n_type = LEAVE, link_application_id = 1\<rparr>]\<rparr>)
       (Inr app1) \<and>
   status app1 = PENDING"
  by (simp add: apply_for_leave_def has_sufficient_balance_def get_leave_balance_def
      get_current_user_def validate_create_def validate_dates_def date_less_def
      balance_filter_def create_notification_def response_model_def commit_role_def Let_def
      db_nobal_def sample_defs date_defs)

section \<open>Approval by a manager of an employee who is not a report\<close>

text \<open>
  Claim C3 (the route does not do what the claim and the service layer say). Manager 3
  has no report, and \<^verbatim>\<open>can_approve_leave\<close> denies manager 3 the application of employee
  1, whose manager is 2; the route \<^verbatim>\<open>approve_leave\<close> checks the role only, never calls
  \<^verbatim>\<open>can_approve_leave\<close>, approves, debits the balance and answers with the approved
  application. The caller is manager 3 as \<^verbatim>\<open>get_current_user\<close> returns it for a token
  of manager 3.
\<close>

theorem manager_approves_unrelated_application:
  "get_current_user (employees db1) \<lparr>token_sub = 3, token_role = MANAGER\<rparr> = Inr mgr3 \<and>
   role mgr3 = MANAGER \<and>
   subordinates (employees db1) mgr3 = [] \<and>
   find (\<lambda>x. leave_application_id x = 1) (leave_applications db1) = Some app1 \<and>
   status app1 = PENDING \<and>
   \<not> can_approve_leave (employees db1) mgr3 app1 \<and>
   approve_leave db1 1 approve_req mgr3 200 =
     Committed
       (db1\<lparr>leave_applications :=
               [app1\<lparr>status := APPROVED, approved_by := Some 3,
                      approved_rejected_on := Some 200\<rparr>],
            leave_balances := [bal2],
            notifications := [\<lparr>n_employee_id = 1, title = ''Leave Application Approved'',
                               n_type = LEAVE, link_application_id = 1\<rparr>]\<rparr>)
       (Inr (app1\<lparr>status := APPROVED, approved_by := Some 3,
                  approved_rejected_on := Some 200\<rparr>))"
  by (simp add: approve_leave_def can_approve_leave_def subordinates_def get_current_user_def
      get_current_manager_or_admin_def validate_status_def balance_filter_def
      create_notification_def response_model_def validate_dates_def date_less_def
      commit_role_def Let_def approve_req_def bal2_def sample_defs)

section \<open>Cancellation of an approved application and the manager\<close>

text \<open>
  Claim C9 (the route does not do what the claim and its own comment say). The comment
  reads "Notify manager if it was pending", but the guard is
  \<^verbatim>\<open>if current_user.manager_id:\<close> alone: when employee 1, whose manager is 2, cancels the
  \<open>Approved\<close> application, manager 2 is notified. The caller is employee 1 as
  \<^verbatim>\<open>get_current_user\<close> returns it for a token of employee 1.
\<close>

theorem cancel_of_approved_notifies_manager:
  "get_current_user (employees db2) \<lparr>token_sub = 1, token_role = EMPLOYEE\<rparr> = Inr emp1 \<and>
   find (\<lambda>x. leave_application_id x = 1) (leave_applications db2) = Some app2 \<and>
   status app2 = APPROVED \<and>
   la_employee_id app2 = employee_id emp1 \<and>
   manager_id emp1 = Some 2 \<and>
   cancel_leave db2 1 emp1 = Committed db3 (Inr app3) \<and>
   notifications db3 =
     notifications db2 @ [\<lparr>n_employee_id = 2, title = ''Leave Application Cancelled'',
                            n_type = LEAVE, link_application_id = 1\<rparr>]"
  by (simp add: cancel_leave_def get_current_user_def balance_filter_def
      create_notification_def response_model_def validate_dates_def date_less_def
      commit_role_def Let_def db2_def db3_def app2_def app3_def bal2_def sample_defs)

section \<open>The ledger invariant is preserved\<close>

text \<open>
  The rows of the seed script satisfy the ledger invariant (\<open>seed_balance_invariant\<close>), and
  no route call breaks it: a ledger whose rows all satisfy it stays so.
\<close>

lemma perform_preserves_ledger:
  assumes "perform d op = Committed d' res"
    and "list_all balance_invariant (leave_balances d)"
  shows "list_all balance_invariant (leave_balances d')"
proof (cases op)
  case (Apply body user now)
  with assms show ?thesis
    by (auto simp: respond_iff apply_for_leave_def
        create_notification_def Let_def
        split: sum.splits option.splits if_splits)
next
  case (Approve aid body user now)
  with assms show ?thesis
    by (auto simp: respond_iff approve_leave_def
        create_notification_def Let_def balance_invariant_def
        intro!: list_all_update_first
        split: sum.splits option.splits if_splits)
next
  case (Cancel aid user)
  with assms show ?thesis
    by (auto simp: respond_iff cancel_leave_def
        create_notification_def Let_def balance_invariant_def
        intro!: list_all_update_first
        split: sum.splits option.splits if_splits)
next
  case (Update aid body user)
  with assms(1) have r: "update_leave_application d aid body user = Committed d' res" by simp
  have "leave_balances d' = leave_balances d"
    by (subst update_tables [OF r]) simp
  with assms(2) show ?thesis by simp
qed

section \<open>After the commit: the response and the role of the caller\<close>

text \<open>
  The edit route has no validator of the dates: employee 1 can move the end of the pending
  application before its start. The edit is committed and answered with HTTP 500, and so
  is the approval that follows. A token whose role differs from the stored one has that
  role stored by the commit of the route.
\<close>

lemma edit_reversed_dates:
  "update_leave_application db1 1 edit_reversed emp1 =
     Committed (db1\<lparr>leave_applications := [app_reversed]\<rparr>) (Inl InternalError)"
  by (simp add: update_leave_application_def validate_update_def field_get_def
      response_model_def validate_dates_def date_less_def commit_role_def Let_def
      edit_reversed_def app_reversed_def sample_defs date_defs)

lemma approve_reversed_dates:
  "approve_leave (db1\<lparr>leave_applications := [app_reversed]\<rparr>) 1 approve_req mgr2 200 =
     Committed
       (db1\<lparr>leave_applications :=
               [app_reversed\<lparr>status := APPROVED, approved_by := Some 2,
                              approved_rejected_on := Some 200\<rparr>],
            leave_balances := [bal1\<lparr>used_days := 4, remaining_days := Some 16\<rparr>],
            notifications := [\<lparr>n_employee_id = 1, title = ''Leave Application Approved'',
                               n_type = LEAVE, link_application_id = 1\<rparr>]\<rparr>)
       (Inl InternalError)"
  by (simp add: approve_leave_def get_current_manager_or_admin_def validate_status_def
      balance_filter_def create_notification_def response_model_def validate_dates_def
      date_less_def commit_role_def Let_def approve_req_def app_reversed_def sample_defs)

lemma token_role_is_stored:
  "get_current_user (employees db1) \<lparr>token_sub = 2, token_role = ADMIN\<rparr> =
     Inr (mgr2\<lparr>role := ADMIN\<rparr>) \<and>
   approve_leave db1 1 approve_req (mgr2\<lparr>role := ADMIN\<rparr>) 200 =
     Committed (db2\<lparr>employees := [emp1, mgr2\<lparr>role := ADMIN\<rparr>, mgr3]\<rparr>) (Inr app2)"
  by (simp add: approve_leave_def get_current_user_def get_current_manager_or_admin_def
      validate_status_def balance_filter_def create_notification_def response_model_def
      validate_dates_def date_less_def commit_role_def Let_def approve_req_def
      db2_def app2_def bal2_def sample_defs)

end
